theory Spec2Isabelle
  imports Main
begin

section \<open>Package types: the Student record\<close>

text \<open>
  \<^verbatim>\<open>type Student struct { ID int; Name string; Email string; Age int }\<close>
  with the tags \<^verbatim>\<open>json:"id"\<close>, \<^verbatim>\<open>json:"name" validate:"required"\<close>,
  \<^verbatim>\<open>json:"email" validate:"required"\<close>, \<^verbatim>\<open>json:"age" validate:"required"\<close>.
  Go's \<^verbatim>\<open>int\<close> is taken as 64 bits wide; the program does no arithmetic on it, and every
  value enters through a range-checked parse, so it is an \<open>int\<close> here.
\<close>

record Student =
  ID :: int
  Name :: string
  Email :: string
  Age :: int

definition zero_Student :: Student where
  "zero_Student = \<lparr>ID = 0, Name = [], Email = [], Age = 0\<rparr>"

section \<open>Go error values\<close>

text \<open>
  An error is a value with a message and, when built by \<^verbatim>\<open>fmt.Errorf("...%w", err)\<close>, a
  wrapped cause. \<^verbatim>\<open>sql.ErrNoRows\<close> and \<^verbatim>\<open>io.EOF\<close> are package-level sentinels that the
  code compares by identity, so each has a constructor of its own.
\<close>

datatype goerr =
    ErrNoRows
  | EOF
  | ErrorString string
  | WrapError string goerr

fun errorMsg :: "goerr \<Rightarrow> string" where
  "errorMsg ErrNoRows = ''sql: no rows in result set''"
| "errorMsg EOF = ''EOF''"
| "errorMsg (ErrorString s) = s"
| "errorMsg (WrapError s _) = s"

fun Unwrap :: "goerr \<Rightarrow> goerr option" where
  "Unwrap (WrapError _ e) = Some e"
| "Unwrap _ = None"

text \<open>\<^verbatim>\<open>errors.Is(err, target)\<close> for a sentinel target: walk the chain of wrapped causes.\<close>

fun errors_Is :: "goerr \<Rightarrow> goerr \<Rightarrow> bool" where
  "errors_Is (WrapError s e) target = (WrapError s e = target \<or> errors_Is e target)"
| "errors_Is e target = (e = target)"

text \<open>\<^verbatim>\<open>fmt.Errorf(ctx + "%w", err)\<close>.\<close>

definition Errorf_w :: "string \<Rightarrow> goerr \<Rightarrow> goerr" where
  "Errorf_w ctx err = WrapError (ctx @ errorMsg err) err"

section \<open>Decimal integers: \<^verbatim>\<open>%d\<close> and \<^verbatim>\<open>strconv.ParseInt(s, 10, 64)\<close>\<close>

definition digit_char :: "int \<Rightarrow> char" where
  "digit_char d = char_of (48 + d)"

function digits :: "int \<Rightarrow> string" where
  "digits n = (if n < 10 then [digit_char n] else digits (n div 10) @ [digit_char (n mod 10)])"
  by pat_completeness auto
termination
  by (relation "measure nat") auto

declare digits.simps [simp del]

definition itoa :: "int \<Rightarrow> string" where
  "itoa i = (if i < 0 then CHR ''-'' # digits (- i) else digits i)"

definition digit_val :: "char \<Rightarrow> int option" where
  "digit_val c = (let n = (of_char c :: int) in if 48 \<le> n \<and> n \<le> 57 then Some (n - 48) else None)"

fun parse_digits :: "int \<Rightarrow> string \<Rightarrow> int option" where
  "parse_digits acc [] = Some acc"
| "parse_digits acc (c # cs) =
     (case digit_val c of None \<Rightarrow> None | Some d \<Rightarrow> parse_digits (acc * 10 + d) cs)"

text \<open>
  \<^verbatim>\<open>strconv.ParseInt(s, 10, 64)\<close>: an optional sign, then one or more decimal digits, the
  value within the signed 64-bit range. Its two failures (syntax, range) are one \<open>None\<close>:
  every caller only tests \<^verbatim>\<open>err != nil\<close>.
\<close>

definition ParseInt :: "string \<Rightarrow> int option" where
  "ParseInt s =
     (if s = [] then None
      else let neg = (hd s = CHR ''-'');
               s' = (if hd s = CHR ''+'' \<or> hd s = CHR ''-'' then tl s else s)
           in if s' = [] then None
              else (case parse_digits 0 s' of
                      None \<Rightarrow> None
                    | Some un \<Rightarrow>
                        if \<not> neg \<and> un \<ge> 2 ^ 63 then None
                        else if neg \<and> un > 2 ^ 63 then None
                        else Some (if neg then - un else un)))"

section \<open>Package sqlite: the store\<close>

text \<open>
  The table \<^verbatim>\<open>students(id INTEGER PRIMARY KEY AUTOINCREMENT, name TEXT NOT NULL,
  email TEXT NOT NULL, age INTEGER NOT NULL)\<close> created by \<^verbatim>\<open>sqlite.New\<close>: its rows in rowid
  order, and the counter that SQLite keeps for an AUTOINCREMENT column (the largest rowid
  the table has ever held).
\<close>

record store =
  students :: "Student list"
  sqlite_sequence :: int

text \<open>\<^verbatim>\<open>sqlite.New\<close> on a fresh database file: the table exists and is empty.\<close>

definition SQLite_New :: store where
  "SQLite_New = \<lparr>students = [], sqlite_sequence = 0\<rparr>"

text \<open>
  Every call into \<^verbatim>\<open>database/sql\<close> may fail for reasons outside the program (a locked or
  unreadable file, a full disk). A \<open>driver\<close> says, for one request, which call sites fail
  and with what error; \<open>healthy\<close> fails nowhere.
\<close>

datatype call =
    CreatePrepare | CreateExec | CreateLastInsertId
  | GetPrepare | GetScan
  | ListPrepare | ListQuery | ListNext nat | ListScan nat
  | UpdatePrepare | UpdateExec
  | DeletePrepare | DeleteExec

type_synonym driver = "call \<Rightarrow> goerr option"

definition healthy :: driver where
  "healthy = (\<lambda>_. None)"

definition MAX_ROWID :: int where
  "MAX_ROWID = 2 ^ 63 - 1"

text \<open>
  The rowid SQLite gives a row inserted without one into an AUTOINCREMENT table: one more
  than the largest rowid in the table, and at least one more than the counter; the insert
  fails with SQLITE_FULL when either has reached the largest 64-bit value.
\<close>

definition new_rowid :: "store \<Rightarrow> int option" where
  "new_rowid s =
     (let m = (if students s = [] then 0 else Max (set (map ID (students s))))
      in if m = MAX_ROWID \<or> sqlite_sequence s = MAX_ROWID then None
         else Some (max (m + 1) (sqlite_sequence s + 1)))"

text \<open>\<^verbatim>\<open>INSERT INTO students (name, email, age) VALUES (?, ?, ?)\<close>\<close>

definition exec_insert :: "driver \<Rightarrow> string \<Rightarrow> string \<Rightarrow> int \<Rightarrow> store \<Rightarrow> goerr + (int \<times> store)" where
  "exec_insert drv name email age s =
     (case drv CreateExec of
        Some err \<Rightarrow> Inl err
      | None \<Rightarrow>
          (case new_rowid s of
             None \<Rightarrow> Inl (ErrorString ''database or disk is full'')
           | Some i \<Rightarrow>
               Inr (i, s\<lparr>students := students s @ [\<lparr>ID = i, Name = name, Email = email, Age = age\<rparr>],
                         sqlite_sequence := i\<rparr>)))"

definition SQLite_CreateStudent ::
  "driver \<Rightarrow> string \<Rightarrow> string \<Rightarrow> int \<Rightarrow> store \<Rightarrow> (goerr + int) \<times> store" where
  "SQLite_CreateStudent drv name email age s =
     (case drv CreatePrepare of
        Some err \<Rightarrow> (Inl (Errorf_w ''CreateStudent: prepare: '' err), s)
      | None \<Rightarrow>
          (case exec_insert drv name email age s of
             Inl err \<Rightarrow> (Inl (Errorf_w ''CreateStudent: exec: '' err), s)
           | Inr (lastID, s') \<Rightarrow>
               (case drv CreateLastInsertId of
                  Some err \<Rightarrow> (Inl (Errorf_w ''CreateStudent: last insert id: '' err), s')
                | None \<Rightarrow> (Inr lastID, s'))))"

text \<open>
  \<^verbatim>\<open>SELECT id, name, email, age FROM students WHERE id = ? LIMIT 1\<close>, then \<^verbatim>\<open>Scan\<close>:
  the first matching row, \<^verbatim>\<open>sql.ErrNoRows\<close> when there is none.
\<close>

definition query_row :: "driver \<Rightarrow> int \<Rightarrow> store \<Rightarrow> goerr + Student" where
  "query_row drv sid s =
     (case drv GetScan of
        Some err \<Rightarrow> Inl err
      | None \<Rightarrow>
          (case find (\<lambda>r. ID r = sid) (students s) of
             None \<Rightarrow> Inl ErrNoRows
           | Some r \<Rightarrow> Inr r))"

definition SQLite_GetStudentByID :: "driver \<Rightarrow> int \<Rightarrow> store \<Rightarrow> goerr + Student" where
  "SQLite_GetStudentByID drv sid s =
     (case drv GetPrepare of
        Some err \<Rightarrow> Inl (Errorf_w ''GetStudentByID: prepare: '' err)
      | None \<Rightarrow>
          (case query_row drv sid s of
             Inl err \<Rightarrow>
               if err = ErrNoRows
               then Inl (ErrorString (''no student found with id: '' @ itoa sid))
               else Inl (Errorf_w ''GetStudentByID: scan: '' err)
           | Inr student \<Rightarrow> Inr student))"

text \<open>
  The loop \<^verbatim>\<open>for rows.Next() { rows.Scan(...); students = append(students, student) }\<close>
  followed by \<^verbatim>\<open>rows.Err()\<close>; \<open>i\<close> counts the rows read so far. A failing \<^verbatim>\<open>Next\<close> ends
  the loop and is what \<^verbatim>\<open>rows.Err()\<close> then reports.
\<close>

fun scan_rows :: "driver \<Rightarrow> nat \<Rightarrow> Student list \<Rightarrow> Student list \<Rightarrow> goerr + Student list" where
  "scan_rows drv i [] acc =
     (case drv (ListNext i) of
        Some err \<Rightarrow> Inl (Errorf_w ''GetStudents: rows iteration: '' err)
      | None \<Rightarrow> Inr acc)"
| "scan_rows drv i (r # rs) acc =
     (case drv (ListNext i) of
        Some err \<Rightarrow> Inl (Errorf_w ''GetStudents: rows iteration: '' err)
      | None \<Rightarrow>
          (case drv (ListScan i) of
             Some err \<Rightarrow> Inl (Errorf_w ''GetStudents: scan row: '' err)
           | None \<Rightarrow> scan_rows drv (Suc i) rs (acc @ [r])))"

text \<open>
  A Go slice is \<open>None\<close> when it is nil and \<open>Some xs\<close> otherwise: the two encode differently
  (\<^verbatim>\<open>null\<close> and \<^verbatim>\<open>[...]\<close>). \<^verbatim>\<open>GetStudents\<close> starts from \<^verbatim>\<open>make([]types.Student, 0)\<close>.
\<close>

definition SQLite_GetStudents :: "driver \<Rightarrow> store \<Rightarrow> goerr + Student list option" where
  "SQLite_GetStudents drv s =
     (case drv ListPrepare of
        Some err \<Rightarrow> Inl (Errorf_w ''GetStudents: prepare: '' err)
      | None \<Rightarrow>
          (case drv ListQuery of
             Some err \<Rightarrow> Inl (Errorf_w ''GetStudents: query: '' err)
           | None \<Rightarrow>
               (case scan_rows drv 0 (students s) [] of
                  Inl err \<Rightarrow> Inl err
                | Inr xs \<Rightarrow> Inr (Some xs))))"

text \<open>\<^verbatim>\<open>UPDATE students SET name = ?, email = ?, age = ? WHERE id = ?\<close>\<close>

definition exec_update :: "driver \<Rightarrow> int \<Rightarrow> Student \<Rightarrow> store \<Rightarrow> goerr + store" where
  "exec_update drv sid student s =
     (case drv UpdateExec of
        Some err \<Rightarrow> Inl err
      | None \<Rightarrow>
          Inr (s\<lparr>students :=
                   map (\<lambda>r. if ID r = sid
                            then r\<lparr>Name := Name student, Email := Email student, Age := Age student\<rparr>
                            else r) (students s)\<rparr>))"

definition SQLite_UpdateStudentByID ::
  "driver \<Rightarrow> int \<Rightarrow> Student \<Rightarrow> store \<Rightarrow> (goerr + Student) \<times> store" where
  "SQLite_UpdateStudentByID drv sid student s =
     (case drv UpdatePrepare of
        Some err \<Rightarrow> (Inl (Errorf_w ''UpdateStudentByID: prepare: '' err), s)
      | None \<Rightarrow>
          (case exec_update drv sid student s of
             Inl err \<Rightarrow> (Inl (Errorf_w ''UpdateStudentByID: exec: '' err), s)
           | Inr s' \<Rightarrow> (SQLite_GetStudentByID drv sid s', s')))"

text \<open>\<^verbatim>\<open>DELETE FROM students WHERE id = ?\<close>\<close>

definition exec_delete :: "driver \<Rightarrow> int \<Rightarrow> store \<Rightarrow> goerr + store" where
  "exec_delete drv sid s =
     (case drv DeleteExec of
        Some err \<Rightarrow> Inl err
      | None \<Rightarrow> Inr (s\<lparr>students := filter (\<lambda>r. ID r \<noteq> sid) (students s)\<rparr>))"

definition SQLite_DeleteStudentByID :: "driver \<Rightarrow> int \<Rightarrow> store \<Rightarrow> goerr option \<times> store" where
  "SQLite_DeleteStudentByID drv sid s =
     (case drv DeletePrepare of
        Some err \<Rightarrow> (Some (Errorf_w ''DeleteStudentByID: prepare: '' err), s)
      | None \<Rightarrow>
          (case exec_delete drv sid s of
             Inl err \<Rightarrow> (Some (Errorf_w ''DeleteStudentByID: exec: '' err), s)
           | Inr s' \<Rightarrow> (None, s')))"

section \<open>Package storage: the Storage interface\<close>

text \<open>
  The handlers depend on the interface only. A method takes the state of the
  implementation behind it and returns the state it leaves.
\<close>

record 's Storage =
  CreateStudent :: "string \<Rightarrow> string \<Rightarrow> int \<Rightarrow> 's \<Rightarrow> (goerr + int) \<times> 's"
  GetStudentByID :: "int \<Rightarrow> 's \<Rightarrow> (goerr + Student) \<times> 's"
  GetStudents :: "'s \<Rightarrow> (goerr + Student list option) \<times> 's"
  UpdateStudentByID :: "int \<Rightarrow> Student \<Rightarrow> 's \<Rightarrow> (goerr + Student) \<times> 's"
  DeleteStudentByID :: "int \<Rightarrow> 's \<Rightarrow> goerr option \<times> 's"

text \<open>\<^verbatim>\<open>*SQLite\<close> as a \<^verbatim>\<open>storage.Storage\<close>; the two reads leave the store as it is.\<close>

definition SQLite :: "driver \<Rightarrow> store Storage" where
  "SQLite drv =
     \<lparr>CreateStudent = SQLite_CreateStudent drv,
      GetStudentByID = (\<lambda>sid s. (SQLite_GetStudentByID drv sid s, s)),
      GetStudents = (\<lambda>s. (SQLite_GetStudents drv s, s)),
      UpdateStudentByID = SQLite_UpdateStudentByID drv,
      DeleteStudentByID = SQLite_DeleteStudentByID drv\<rparr>"

section \<open>Package response\<close>

record Response =
  Status :: string
  Error :: string

definition StatusOK :: string where
  "StatusOK = ''ok''"

definition StatusError :: string where
  "StatusError = ''error''"

text \<open>The values the handlers hand to \<^verbatim>\<open>WriteJSON\<close> as \<^verbatim>\<open>data\<close>.\<close>

datatype payload =
    Envelope Response
  | IdMap int
  | StatusMap string
  | OneStudent Student
  | StudentSlice "Student list option"

record http_response =
  status_code :: nat
  content_type :: string
  data :: payload

definition WriteJSON :: "nat \<Rightarrow> payload \<Rightarrow> http_response" where
  "WriteJSON status d = \<lparr>status_code = status, content_type = ''application/json'', data = d\<rparr>"

definition GeneralError :: "goerr \<Rightarrow> Response" where
  "GeneralError err = \<lparr>Status = StatusError, Error = errorMsg err\<rparr>"

text \<open>\<^verbatim>\<open>strings.Join(elems, sep)\<close>\<close>

fun Join :: "string list \<Rightarrow> string \<Rightarrow> string" where
  "Join [] sep = []"
| "Join [x] sep = x"
| "Join (x # y # ys) sep = x @ sep @ Join (y # ys) sep"

text \<open>What the handlers read of a \<^verbatim>\<open>validator.FieldError\<close>.\<close>

record FieldError =
  Field :: string
  ActualTag :: string

definition field_sentence :: "FieldError \<Rightarrow> string" where
  "field_sentence e =
     (if ActualTag e = ''required'' then ''field '' @ Field e @ '' is required''
      else if ActualTag e = ''email'' then ''field '' @ Field e @ '' must be a valid email address''
      else ''field '' @ Field e @ '' is invalid'')"

definition ValidationError :: "FieldError list \<Rightarrow> Response" where
  "ValidationError errs = \<lparr>Status = StatusError, Error = Join (map field_sentence errs) '', ''\<rparr>"

text \<open>
  The body \<^verbatim>\<open>json.NewEncoder(w).Encode(data)\<close> writes: the value, then a newline. The
  encoder's quoting of a string is the library's and is a parameter \<open>q\<close> here.
\<close>

definition encode_Student :: "(string \<Rightarrow> string) \<Rightarrow> Student \<Rightarrow> string" where
  \<open>encode_Student q s =
     ''{"id":'' @ itoa (ID s) @ '',"name":'' @ q (Name s) @ '',"email":'' @ q (Email s)
       @ '',"age":'' @ itoa (Age s) @ ''}''\<close>

fun encode_payload :: "(string \<Rightarrow> string) \<Rightarrow> payload \<Rightarrow> string" where
  \<open>encode_payload q (Envelope r) =
     ''{"status":'' @ q (Status r) @ '',"error":'' @ q (Error r) @ ''}''\<close>
| \<open>encode_payload q (IdMap i) = ''{"id":'' @ itoa i @ ''}''\<close>
| \<open>encode_payload q (StatusMap v) = ''{"status":'' @ q v @ ''}''\<close>
| \<open>encode_payload q (OneStudent s) = encode_Student q s\<close>
| \<open>encode_payload q (StudentSlice None) = ''null''\<close>
| \<open>encode_payload q (StudentSlice (Some xs)) =
     ''['' @ Join (map (encode_Student q) xs) '','' @ '']''\<close>

definition response_body :: "(string \<Rightarrow> string) \<Rightarrow> http_response \<Rightarrow> string" where
  "response_body q r = encode_payload q (data r) @ [CHR 0x0A]"

section \<open>Decoding and validating a request body\<close>

text \<open>
  \<^verbatim>\<open>json.NewDecoder(r.Body).Decode(&student)\<close> reads the first JSON value of the body and
  stores it into the struct. Reading the value is the library's tokenizer: it fails (with
  \<^verbatim>\<open>io.EOF\<close> on an empty body, with a syntax error otherwise) or yields a value. A string
  holds its unquoted text, a number its literal.
\<close>

datatype json =
    JNull
  | JBool bool
  | JNumber string
  | JString string
  | JArray "json list"
  | JObject "(string \<times> json) list"

datatype request_body =
    ReadError goerr
  | JSONValue json

text \<open>
  Storing a value into a field follows the field's Go type: \<^verbatim>\<open>null\<close> leaves it as it is,
  a value of the right kind sets it, and any other value is an \<^verbatim>\<open>UnmarshalTypeError\<close>.
  A number goes into an \<^verbatim>\<open>int\<close> through \<^verbatim>\<open>strconv.ParseInt(literal, 10, 64)\<close>.
\<close>

definition type_error :: "string \<Rightarrow> string \<Rightarrow> string \<Rightarrow> goerr" where
  "type_error v fld ty =
     ErrorString (''json: cannot unmarshal '' @ v @ '' into Go struct field Student.'' @ fld
                  @ '' of type '' @ ty)"

fun decode_int :: "string \<Rightarrow> json \<Rightarrow> int \<Rightarrow> goerr + int" where
  "decode_int fld JNull cur = Inr cur"
| "decode_int fld (JNumber lit) cur =
     (case ParseInt lit of
        Some n \<Rightarrow> Inr n
      | None \<Rightarrow> Inl (type_error (''number '' @ lit) fld ''int''))"
| "decode_int fld (JBool _) cur = Inl (type_error ''bool'' fld ''int'')"
| "decode_int fld (JString _) cur = Inl (type_error ''string'' fld ''int'')"
| "decode_int fld (JArray _) cur = Inl (type_error ''array'' fld ''int'')"
| "decode_int fld (JObject _) cur = Inl (type_error ''object'' fld ''int'')"

fun decode_string :: "string \<Rightarrow> json \<Rightarrow> string \<Rightarrow> goerr + string" where
  "decode_string fld JNull cur = Inr cur"
| "decode_string fld (JString x) cur = Inr x"
| "decode_string fld (JNumber _) cur = Inl (type_error ''number'' fld ''string'')"
| "decode_string fld (JBool _) cur = Inl (type_error ''bool'' fld ''string'')"
| "decode_string fld (JArray _) cur = Inl (type_error ''array'' fld ''string'')"
| "decode_string fld (JObject _) cur = Inl (type_error ''object'' fld ''string'')"

text \<open>
  A key selects the field whose \<^verbatim>\<open>json\<close> tag it equals up to the case of its ASCII
  letters; a key that selects none is skipped with its value.
\<close>

definition lower :: "char \<Rightarrow> char" where
  "lower c = (let n = (of_char c :: int) in if 65 \<le> n \<and> n \<le> 90 then char_of (n + 32) else c)"

text \<open>Only the first error of a decode is kept (\<^verbatim>\<open>saveError\<close>); decoding goes on after it.\<close>

definition saveError :: "goerr option \<Rightarrow> goerr \<Rightarrow> goerr option" where
  "saveError saved err = (case saved of None \<Rightarrow> Some err | Some e \<Rightarrow> Some e)"

definition set_member :: "string \<times> json \<Rightarrow> Student \<times> goerr option \<Rightarrow> Student \<times> goerr option" where
  "set_member kv acc =
     (let k = map lower (fst kv); v = snd kv; s = fst acc; saved = snd acc
      in if k = ''id'' then
           (case decode_int ''id'' v (ID s) of
              Inl err \<Rightarrow> (s, saveError saved err) | Inr n \<Rightarrow> (s\<lparr>ID := n\<rparr>, saved))
         else if k = ''name'' then
           (case decode_string ''name'' v (Name s) of
              Inl err \<Rightarrow> (s, saveError saved err) | Inr x \<Rightarrow> (s\<lparr>Name := x\<rparr>, saved))
         else if k = ''email'' then
           (case decode_string ''email'' v (Email s) of
              Inl err \<Rightarrow> (s, saveError saved err) | Inr x \<Rightarrow> (s\<lparr>Email := x\<rparr>, saved))
         else if k = ''age'' then
           (case decode_int ''age'' v (Age s) of
              Inl err \<Rightarrow> (s, saveError saved err) | Inr n \<Rightarrow> (s\<lparr>Age := n\<rparr>, saved))
         else (s, saved))"

definition value_error :: "string \<Rightarrow> goerr" where
  "value_error v =
     ErrorString (''json: cannot unmarshal '' @ v @ '' into Go value of type types.Student'')"

fun unmarshal_Student :: "json \<Rightarrow> goerr + Student" where
  "unmarshal_Student JNull = Inr zero_Student"
| "unmarshal_Student (JObject kvs) =
     (case fold set_member kvs (zero_Student, None) of
        (s, None) \<Rightarrow> Inr s
      | (s, Some err) \<Rightarrow> Inl err)"
| "unmarshal_Student (JBool _) = Inl (value_error ''bool'')"
| "unmarshal_Student (JNumber _) = Inl (value_error ''number'')"
| "unmarshal_Student (JString _) = Inl (value_error ''string'')"
| "unmarshal_Student (JArray _) = Inl (value_error ''array'')"

definition Decode :: "request_body \<Rightarrow> goerr + Student" where
  "Decode body = (case body of ReadError err \<Rightarrow> Inl err | JSONValue v \<Rightarrow> unmarshal_Student v)"

text \<open>
  \<^verbatim>\<open>validator.New().Struct(student)\<close>: the fields in declaration order, each tagged
  \<^verbatim>\<open>validate:"required"\<close> failing when it holds the zero value of its type.
\<close>

definition validate_Struct :: "Student \<Rightarrow> FieldError list" where
  "validate_Struct s =
     (if Name s = [] then [\<lparr>Field = ''Name'', ActualTag = ''required''\<rparr>] else [])
     @ (if Email s = [] then [\<lparr>Field = ''Email'', ActualTag = ''required''\<rparr>] else [])
     @ (if Age s = 0 then [\<lparr>Field = ''Age'', ActualTag = ''required''\<rparr>] else [])"

section \<open>Package student: the handlers\<close>

definition StatusBadRequest :: nat where
  "StatusBadRequest = 400"

definition StatusInternalServerError :: nat where
  "StatusInternalServerError = 500"

definition StatusCreated :: nat where
  "StatusCreated = 201"

definition http_StatusOK :: nat where
  "http_StatusOK = 200"

text \<open>
  A handler takes what the router hands it (the \<^verbatim>\<open>{id}\<close> segment of the path, the body)
  and the state behind the storage; it returns the response it writes and the state it
  leaves. The log lines are not modelled.
\<close>

definition New :: "'s Storage \<Rightarrow> request_body \<Rightarrow> 's \<Rightarrow> http_response \<times> 's" where
  "New storage body \<sigma> =
     (case Decode body of
        Inl err \<Rightarrow>
          if errors_Is err EOF
          then (WriteJSON StatusBadRequest
                  (Envelope (GeneralError (ErrorString ''request body is empty''))), \<sigma>)
          else (WriteJSON StatusBadRequest (Envelope (GeneralError err)), \<sigma>)
      | Inr student \<Rightarrow>
          (case validate_Struct student of
             e # es \<Rightarrow> (WriteJSON StatusBadRequest (Envelope (ValidationError (e # es))), \<sigma>)
           | [] \<Rightarrow>
               (case CreateStudent storage (Name student) (Email student) (Age student) \<sigma> of
                  (Inl err, \<sigma>') \<Rightarrow>
                    (WriteJSON StatusInternalServerError (Envelope (GeneralError err)), \<sigma>')
                | (Inr lastID, \<sigma>') \<Rightarrow> (WriteJSON StatusCreated (IdMap lastID), \<sigma>'))))"

definition GetByID :: "'s Storage \<Rightarrow> string \<Rightarrow> 's \<Rightarrow> http_response \<times> 's" where
  "GetByID storage path_id \<sigma> =
     (case ParseInt path_id of
        None \<Rightarrow>
          (WriteJSON StatusBadRequest
             (Envelope (GeneralError (ErrorString ''invalid id: must be an integer''))), \<sigma>)
      | Some intID \<Rightarrow>
          (case GetStudentByID storage intID \<sigma> of
             (Inl err, \<sigma>') \<Rightarrow>
               (WriteJSON StatusInternalServerError (Envelope (GeneralError err)), \<sigma>')
           | (Inr student, \<sigma>') \<Rightarrow> (WriteJSON http_StatusOK (OneStudent student), \<sigma>')))"

definition GetList :: "'s Storage \<Rightarrow> 's \<Rightarrow> http_response \<times> 's" where
  "GetList storage \<sigma> =
     (case GetStudents storage \<sigma> of
        (Inl err, \<sigma>') \<Rightarrow>
          (WriteJSON StatusInternalServerError (Envelope (GeneralError err)), \<sigma>')
      | (Inr studs, \<sigma>') \<Rightarrow> (WriteJSON http_StatusOK (StudentSlice studs), \<sigma>'))"

definition Update :: "'s Storage \<Rightarrow> string \<Rightarrow> request_body \<Rightarrow> 's \<Rightarrow> http_response \<times> 's" where
  "Update storage path_id body \<sigma> =
     (case ParseInt path_id of
        None \<Rightarrow>
          (WriteJSON StatusBadRequest
             (Envelope (GeneralError (ErrorString ''invalid id: must be an integer''))), \<sigma>)
      | Some intID \<Rightarrow>
          (case Decode body of
             Inl err \<Rightarrow>
               if errors_Is err EOF
               then (WriteJSON StatusBadRequest
                       (Envelope (GeneralError (ErrorString ''request body is empty''))), \<sigma>)
               else (WriteJSON StatusBadRequest (Envelope (GeneralError err)), \<sigma>)
           | Inr student \<Rightarrow>
               (case validate_Struct student of
                  e # es \<Rightarrow> (WriteJSON StatusBadRequest (Envelope (ValidationError (e # es))), \<sigma>)
                | [] \<Rightarrow>
                    (case UpdateStudentByID storage intID student \<sigma> of
                       (Inl err, \<sigma>') \<Rightarrow>
                         (WriteJSON StatusInternalServerError (Envelope (GeneralError err)), \<sigma>')
                     | (Inr updated, \<sigma>') \<Rightarrow> (WriteJSON http_StatusOK (OneStudent updated), \<sigma>')))))"


section \<open>Sequences of storage operations\<close>

text \<open>
  A history of the store: each operation of the interface, with the driver of its
  request, applied in turn to the SQLite store. Next to the store it collects the ids
  that \<^verbatim>\<open>CreateStudent\<close> has returned so far.
\<close>

datatype op =
    OpCreate string string int
  | OpGet int
  | OpList
  | OpUpdate int Student
  | OpDelete int

fun apply_op :: "driver \<times> op \<Rightarrow> store \<times> int list \<Rightarrow> store \<times> int list" where
  "apply_op (drv, OpCreate name email age) (s, ids) =
     (case SQLite_CreateStudent drv name email age s of
        (Inl err, s') \<Rightarrow> (s', ids)
      | (Inr i, s') \<Rightarrow> (s', ids @ [i]))"
| "apply_op (drv, OpGet sid) (s, ids) = (s, ids)"
| "apply_op (drv, OpList) (s, ids) = (s, ids)"
| "apply_op (drv, OpUpdate sid student) (s, ids) =
     (snd (SQLite_UpdateStudentByID drv sid student s), ids)"
| "apply_op (drv, OpDelete sid) (s, ids) = (snd (SQLite_DeleteStudentByID drv sid s), ids)"

definition run_ops :: "(driver \<times> op) list \<Rightarrow> store \<times> int list" where
  "run_ops ops = fold apply_op ops (SQLite_New, [])"

text \<open>
  What every history keeps: the counter is not negative and bounds every id in the table
  and every id handed out.
\<close>

definition counter_bounds :: "store \<times> int list \<Rightarrow> bool" where
  "counter_bounds st =
     (0 \<le> sqlite_sequence (fst st)
      \<and> list_all (\<lambda>r. ID r \<le> sqlite_sequence (fst st)) (students (fst st))
      \<and> list_all (\<lambda>i. i \<le> sqlite_sequence (fst st)) (snd st))"

section \<open>The store's counter along a history\<close>

lemma new_rowid_bounded:
  assumes "counter_bounds (s, ids)" and "new_rowid s = Some i"
  shows "i = sqlite_sequence s + 1"
proof -
  let ?m = "if students s = [] then 0 else Max (set (map ID (students s)))"
  have "?m \<le> sqlite_sequence s"
    using assms(1) by (auto simp: counter_bounds_def list_all_iff)
  with assms(2) show ?thesis
    by (auto simp: new_rowid_def Let_def split: if_splits)
qed

lemma exec_insert_Inr:
  assumes "exec_insert drv name email age s = Inr (i, s')"
  shows "new_rowid s = Some i
    \<and> s' = s\<lparr>students := students s @ [\<lparr>ID = i, Name = name, Email = email, Age = age\<rparr>],
             sqlite_sequence := i\<rparr>"
  using assms by (auto simp: exec_insert_def split: option.splits)

lemma exec_insert_bounds:
  assumes "counter_bounds (s, ids)" and "exec_insert drv name email age s = Inr (i, s')"
  shows "counter_bounds (s', ids @ [i])" and "counter_bounds (s', ids)"
proof -
  from exec_insert_Inr [OF assms(2)] have n: "new_rowid s = Some i"
    and s': "s' = s\<lparr>students := students s @ [\<lparr>ID = i, Name = name, Email = email, Age = age\<rparr>],
             sqlite_sequence := i\<rparr>" by simp_all
  from new_rowid_bounded [OF assms(1) n] have i: "i = sqlite_sequence s + 1" .
  show "counter_bounds (s', ids @ [i])"
    using assms(1) unfolding s' i by (auto simp: counter_bounds_def list_all_iff)
  show "counter_bounds (s', ids)"
    using assms(1) unfolding s' i by (auto simp: counter_bounds_def list_all_iff)
qed

lemma create_cases:
  "SQLite_CreateStudent drv name email age s = (res, s') \<Longrightarrow>
     (s' = s \<and> (\<exists>e. res = Inl e))
     \<or> (\<exists>i. exec_insert drv name email age s = Inr (i, s') \<and> (res = Inr i \<or> (\<exists>e. res = Inl e)))"
  by (auto simp: SQLite_CreateStudent_def split: option.splits sum.splits)

lemma create_Inr:
  "SQLite_CreateStudent drv name email age s = (Inr i, s') \<Longrightarrow>
     exec_insert drv name email age s = Inr (i, s')"
  by (auto simp: SQLite_CreateStudent_def split: option.splits sum.splits)

lemma update_bounds:
  "counter_bounds (s, ids) \<Longrightarrow> counter_bounds (snd (SQLite_UpdateStudentByID drv sid student s), ids)"
  by (auto simp: SQLite_UpdateStudentByID_def exec_update_def counter_bounds_def list_all_iff
      split: option.splits sum.splits)

lemma delete_bounds:
  "counter_bounds (s, ids) \<Longrightarrow> counter_bounds (snd (SQLite_DeleteStudentByID drv sid s), ids)"
  by (auto simp: SQLite_DeleteStudentByID_def exec_delete_def counter_bounds_def list_all_iff
      split: option.splits sum.splits)

lemma apply_op_bounds:
  "counter_bounds st \<Longrightarrow> counter_bounds (apply_op dop st)"
proof (cases dop; cases st)
  fix drv o' s ids
  assume b: "counter_bounds st" and d: "dop = (drv, o')" and st: "st = (s, ids)"
  show "counter_bounds (apply_op dop st)"
  proof (cases o')
    case (OpCreate name email age)
    obtain res s' where c: "SQLite_CreateStudent drv name email age s = (res, s')"
      by (cases "SQLite_CreateStudent drv name email age s")
    from create_cases [OF c] b st show ?thesis
      unfolding d st OpCreate using c
      by (auto dest: exec_insert_bounds)
  qed (use b d st in \<open>auto intro: update_bounds delete_bounds\<close>)
qed

lemma fold_apply_op_bounds:
  "counter_bounds st \<Longrightarrow> counter_bounds (fold apply_op ops st)"
  by (induction ops arbitrary: st) (simp_all add: apply_op_bounds)

lemma run_ops_bounds: "counter_bounds (run_ops ops)"
  unfolding run_ops_def
  by (rule fold_apply_op_bounds) (simp add: counter_bounds_def SQLite_New_def)

lemma find_snoc_fresh:
  "\<forall>r\<in>set xs. \<not> P r \<Longrightarrow> P x \<Longrightarrow> find P (xs @ [x]) = Some x"
  by (induction xs) auto

lemma get_found:
  "drv GetPrepare = None \<Longrightarrow> drv GetScan = None \<Longrightarrow> find (\<lambda>r. ID r = sid) (students s) = Some r
   \<Longrightarrow> SQLite_GetStudentByID drv sid s = Inr r"
  by (simp add: SQLite_GetStudentByID_def query_row_def)

text \<open>
  Claim C1. After any history of operations on a fresh store, a \<^verbatim>\<open>CreateStudent\<close> that
  succeeds returns an id greater than every id a create has returned before and borne by
  no row of the table; a \<^verbatim>\<open>GetStudentByID\<close> of that id that follows at once (its own
  database calls not failing) returns the created name, email and age under that id. The
  fields need not even be valid for this.
\<close>

theorem create_returns_fresh_increasing_id:
  assumes "run_ops ops = (s, ids)"
    and "SQLite_CreateStudent drv name email age s = (Inr i, s')"
    and "drv' GetPrepare = None" and "drv' GetScan = None"
  shows "(\<forall>j\<in>set ids. j < i) \<and> (\<forall>r\<in>set (students s). ID r \<noteq> i)
    \<and> SQLite_GetStudentByID drv' i s' = Inr \<lparr>ID = i, Name = name, Email = email, Age = age\<rparr>"
proof -
  have b: "counter_bounds (s, ids)" using run_ops_bounds [of ops] assms(1) by simp
  from create_Inr [OF assms(2)] have e: "exec_insert drv name email age s = Inr (i, s')" .
  from exec_insert_Inr [OF e] have n: "new_rowid s = Some i"
    and s': "students s' = students s @ [\<lparr>ID = i, Name = name, Email = email, Age = age\<rparr>]"
    by simp_all
  from new_rowid_bounded [OF b n] have i: "i = sqlite_sequence s + 1" .
  have ids: "\<forall>j\<in>set ids. j < i" and rows: "\<forall>r\<in>set (students s). ID r \<noteq> i"
    using b unfolding i by (auto simp: counter_bounds_def list_all_iff)
  have "find (\<lambda>r. ID r = i) (students s') = Some \<lparr>ID = i, Name = name, Email = email, Age = age\<rparr>"
    unfolding s' using rows by (intro find_snoc_fresh) auto
  from get_found [OF assms(3,4) this] ids rows show ?thesis by simp
qed


text \<open>
  Claim C1 at a history that creates student 1 and deletes it: the next create returns 2,
  not the freed 1.
\<close>

theorem create_returns_fresh_increasing_id_witness:
  "run_ops [(healthy, OpCreate ''Rakesh'' ''rakesh@test.com'' 35), (healthy, OpDelete 1)]
     = (\<lparr>students = [], sqlite_sequence = 1\<rparr>, [1])
   \<and> SQLite_CreateStudent healthy ''Priya'' ''priya@test.com'' 20 \<lparr>students = [], sqlite_sequence = 1\<rparr>
     = (Inr 2, \<lparr>students = [\<lparr>ID = 2, Name = ''Priya'', Email = ''priya@test.com'', Age = 20\<rparr>],
                sqlite_sequence = 2\<rparr>)
   \<and> healthy GetPrepare = None \<and> healthy GetScan = None
   \<and> list_all (\<lambda>j. j < (2::int)) [1]
   \<and> SQLite_GetStudentByID healthy 2
        \<lparr>students = [\<lparr>ID = 2, Name = ''Priya'', Email = ''priya@test.com'', Age = 20\<rparr>],
         sqlite_sequence = 2\<rparr>
     = Inr \<lparr>ID = 2, Name = ''Priya'', Email = ''priya@test.com'', Age = 20\<rparr>"
proof -
  have h1: "run_ops [(healthy, OpCreate ''Rakesh'' ''rakesh@test.com'' 35), (healthy, OpDelete 1)]
     = (\<lparr>students = [], sqlite_sequence = 1\<rparr>, [1])"
    by (simp add: run_ops_def SQLite_New_def SQLite_CreateStudent_def exec_insert_def
        new_rowid_def healthy_def MAX_ROWID_def SQLite_DeleteStudentByID_def exec_delete_def)
  have h2: "SQLite_CreateStudent healthy ''Priya'' ''priya@test.com'' 20 \<lparr>students = [], sqlite_sequence = 1\<rparr>
     = (Inr 2, \<lparr>students = [\<lparr>ID = 2, Name = ''Priya'', Email = ''priya@test.com'', Age = 20\<rparr>],
                sqlite_sequence = 2\<rparr>)"
    by (simp add: SQLite_CreateStudent_def exec_insert_def new_rowid_def healthy_def MAX_ROWID_def)
  have h3: "healthy GetPrepare = None" and h4: "healthy GetScan = None"
    by (simp_all add: healthy_def)
  from create_returns_fresh_increasing_id [OF h1 h2 h3 h4] h1 h2 h3 h4
  show ?thesis by simp
qed

section \<open>The storage operations on one store\<close>

lemma New_decoded:
  "Decode body = Inr s \<Longrightarrow>
     New st body \<sigma> =
       (case validate_Struct s of
          e # es \<Rightarrow> (WriteJSON StatusBadRequest (Envelope (ValidationError (e # es))), \<sigma>)
        | [] \<Rightarrow>
            (case CreateStudent st (Name s) (Email s) (Age s) \<sigma> of
               (Inl err, \<sigma>') \<Rightarrow>
                 (WriteJSON StatusInternalServerError (Envelope (GeneralError err)), \<sigma>')
             | (Inr lastID, \<sigma>') \<Rightarrow> (WriteJSON StatusCreated (IdMap lastID), \<sigma>')))"
  by (simp add: New_def)

lemma Update_decoded:
  "ParseInt p = Some i \<Longrightarrow> Decode body = Inr s \<Longrightarrow>
     Update st p body \<sigma> =
       (case validate_Struct s of
          e # es \<Rightarrow> (WriteJSON StatusBadRequest (Envelope (ValidationError (e # es))), \<sigma>)
        | [] \<Rightarrow>
            (case UpdateStudentByID st i s \<sigma> of
               (Inl err, \<sigma>') \<Rightarrow>
                 (WriteJSON StatusInternalServerError (Envelope (GeneralError err)), \<sigma>')
             | (Inr updated, \<sigma>') \<Rightarrow> (WriteJSON http_StatusOK (OneStudent updated), \<sigma>')))"
  by (simp add: Update_def)

lemma status_codes [simp]:
  "status_code (WriteJSON c d) = c" "data (WriteJSON c d) = d"
  by (simp_all add: WriteJSON_def)

lemma digit_char_values:
  "digit_char 0 = CHR ''0''" "digit_char 1 = CHR ''1''" "digit_char 2 = CHR ''2''"
  "digit_char 3 = CHR ''3''" "digit_char 4 = CHR ''4''" "digit_char 5 = CHR ''5''"
  "digit_char 6 = CHR ''6''" "digit_char 7 = CHR ''7''" "digit_char 8 = CHR ''8''"
  "digit_char 9 = CHR ''9''"
  by (simp_all add: digit_char_def char_of_def)

lemma find_None_map_id:
  "find (\<lambda>r. ID r = sid) xs = None \<Longrightarrow> map (\<lambda>r. if ID r = sid then f r else r) xs = xs"
  by (induction xs) (auto split: if_splits)

lemma find_None_filter_id:
  "find (\<lambda>r. ID r = sid) xs = None \<Longrightarrow> filter (\<lambda>r. ID r \<noteq> sid) xs = xs"
  by (induction xs) (auto split: if_splits)

lemma find_filter_out: "find (\<lambda>r. ID r = sid) (filter (\<lambda>r. ID r \<noteq> sid) xs) = None"
  by (induction xs) auto

lemma find_map_update:
  "find (\<lambda>r. ID r = sid) (map (\<lambda>r. if ID r = sid then r\<lparr>Name := n, Email := e, Age := a\<rparr> else r) xs)
     = map_option (\<lambda>r. r\<lparr>Name := n, Email := e, Age := a\<rparr>) (find (\<lambda>r. ID r = sid) xs)"
  by (induction xs) auto

lemma filter_map_other:
  "ID n = i \<Longrightarrow>
     filter (\<lambda>r. ID r \<noteq> i) (map (\<lambda>r. if ID r = i then n else r) xs) = filter (\<lambda>r. ID r \<noteq> i) xs"
  by (induction xs) auto

lemma find_Some_ID: "find (\<lambda>r. ID r = sid) xs = Some r \<Longrightarrow> ID r = sid"
  by (induction xs) (auto split: if_splits)

lemma get_missing:
  "find (\<lambda>r. ID r = sid) (students s) = None \<Longrightarrow> \<exists>e. SQLite_GetStudentByID drv sid s = Inl e"
  by (auto simp: SQLite_GetStudentByID_def query_row_def split: option.splits sum.splits)

lemma get_missing_healthy:
  "find (\<lambda>r. ID r = sid) (students s) = None \<Longrightarrow> drv GetPrepare = None \<Longrightarrow> drv GetScan = None
   \<Longrightarrow> SQLite_GetStudentByID drv sid s = Inl (ErrorString (''no student found with id: '' @ itoa sid))"
  by (simp add: SQLite_GetStudentByID_def query_row_def)

lemma get_Inr:
  "SQLite_GetStudentByID drv sid s = Inr r \<Longrightarrow>
     drv GetPrepare = None \<and> drv GetScan = None \<and> find (\<lambda>r. ID r = sid) (students s) = Some r"
  by (auto simp: SQLite_GetStudentByID_def query_row_def split: option.splits sum.splits if_splits)

lemma exec_update_missing:
  "find (\<lambda>r. ID r = sid) (students s) = None \<Longrightarrow> exec_update drv sid student s = Inr s' \<Longrightarrow> s' = s"
  by (auto simp: exec_update_def find_None_map_id split: option.splits)

lemma update_Inr:
  "SQLite_UpdateStudentByID drv sid student s = (Inr u, s') \<Longrightarrow>
     drv UpdatePrepare = None \<and> drv UpdateExec = None
     \<and> s' = s\<lparr>students := map (\<lambda>r. if ID r = sid
                 then r\<lparr>Name := Name student, Email := Email student, Age := Age student\<rparr>
                 else r) (students s)\<rparr>
     \<and> SQLite_GetStudentByID drv sid s' = Inr u"
  by (auto simp: SQLite_UpdateStudentByID_def exec_update_def split: option.splits sum.splits)

text \<open>
  Claim C2. When no row has the id, \<^verbatim>\<open>UpdateStudentByID\<close> leaves the store as it was and
  returns an error, whatever the driver does; when no database call fails, that error is
  the not-found error of the re-read. When it succeeds, what it returns is the row that
  \<^verbatim>\<open>GetStudentByID\<close> reads from the store after the write: its id is the id of the call,
  so it is not the caller's struct whenever that carries another id.
\<close>

theorem update_missing_id_errors_existing_id_rereads:
  "(find (\<lambda>r. ID r = sid) (students s) = None \<longrightarrow>
      snd (SQLite_UpdateStudentByID drv sid student s) = s
      \<and> (\<exists>e. fst (SQLite_UpdateStudentByID drv sid student s) = Inl e)
      \<and> (drv UpdatePrepare = None \<and> drv UpdateExec = None \<and> drv GetPrepare = None
           \<and> drv GetScan = None \<longrightarrow>
         fst (SQLite_UpdateStudentByID drv sid student s)
           = Inl (ErrorString (''no student found with id: '' @ itoa sid))))
   \<and> (\<forall>u s'. SQLite_UpdateStudentByID drv sid student s = (Inr u, s') \<longrightarrow>
        SQLite_GetStudentByID drv sid s' = Inr u
        \<and> find (\<lambda>r. ID r = sid) (students s') = Some u
        \<and> ID u = sid \<and> (ID student \<noteq> sid \<longrightarrow> u \<noteq> student))"
proof (intro conjI impI allI)
  assume m: "find (\<lambda>r. ID r = sid) (students s) = None"
  show "snd (SQLite_UpdateStudentByID drv sid student s) = s"
    using m by (auto simp: SQLite_UpdateStudentByID_def dest: exec_update_missing
        split: option.splits sum.splits)
  show "\<exists>e. fst (SQLite_UpdateStudentByID drv sid student s) = Inl e"
    using m get_missing [OF m, of drv]
    by (auto simp: SQLite_UpdateStudentByID_def dest: exec_update_missing
        split: option.splits sum.splits)
  assume "drv UpdatePrepare = None \<and> drv UpdateExec = None \<and> drv GetPrepare = None
           \<and> drv GetScan = None"
  then show "fst (SQLite_UpdateStudentByID drv sid student s)
           = Inl (ErrorString (''no student found with id: '' @ itoa sid))"
    using m by (simp add: SQLite_UpdateStudentByID_def exec_update_def find_None_map_id
        get_missing_healthy)
next
  fix u s'
  assume u: "SQLite_UpdateStudentByID drv sid student s = (Inr u, s')"
  from update_Inr [OF u] have g: "SQLite_GetStudentByID drv sid s' = Inr u" by blast
  from get_Inr [OF g] have f: "find (\<lambda>r. ID r = sid) (students s') = Some u" by simp
  show "SQLite_GetStudentByID drv sid s' = Inr u" by (rule g)
  show "find (\<lambda>r. ID r = sid) (students s') = Some u" by (rule f)
  show i: "ID u = sid" by (rule find_Some_ID [OF f])
  assume "ID student \<noteq> sid"
  with i show "u \<noteq> student" by auto
qed

text \<open>
  Claim C2 at a store holding student 1: updating id 7 fails with the not-found error and
  changes nothing; updating id 1 with a struct whose ID is 0 returns the stored row, ID 1.
\<close>

theorem update_missing_id_errors_existing_id_rereads_witness:
  "find (\<lambda>r. ID r = 7)
      (students \<lparr>students = [\<lparr>ID = 1, Name = ''Rakesh'', Email = ''rakesh@test.com'', Age = 35\<rparr>],
                 sqlite_sequence = 1\<rparr>) = None
   \<and> SQLite_UpdateStudentByID healthy 7 \<lparr>ID = 0, Name = ''Priya'', Email = ''priya@test.com'', Age = 20\<rparr>
        \<lparr>students = [\<lparr>ID = 1, Name = ''Rakesh'', Email = ''rakesh@test.com'', Age = 35\<rparr>],
         sqlite_sequence = 1\<rparr>
     = (Inl (ErrorString ''no student found with id: 7''),
        \<lparr>students = [\<lparr>ID = 1, Name = ''Rakesh'', Email = ''rakesh@test.com'', Age = 35\<rparr>],
         sqlite_sequence = 1\<rparr>)
   \<and> SQLite_UpdateStudentByID healthy 1 \<lparr>ID = 0, Name = ''Priya'', Email = ''priya@test.com'', Age = 20\<rparr>
        \<lparr>students = [\<lparr>ID = 1, Name = ''Rakesh'', Email = ''rakesh@test.com'', Age = 35\<rparr>],
         sqlite_sequence = 1\<rparr>
     = (Inr \<lparr>ID = 1, Name = ''Priya'', Email = ''priya@test.com'', Age = 20\<rparr>,
        \<lparr>students = [\<lparr>ID = 1, Name = ''Priya'', Email = ''priya@test.com'', Age = 20\<rparr>],
         sqlite_sequence = 1\<rparr>)
   \<and> \<lparr>ID = 1, Name = ''Priya'', Email = ''priya@test.com'', Age = 20\<rparr>
       \<noteq> \<lparr>ID = 0, Name = ''Priya'', Email = ''priya@test.com'', Age = 20\<rparr>"
proof -
  let ?s = "\<lparr>students = [\<lparr>ID = 1, Name = ''Rakesh'', Email = ''rakesh@test.com'', Age = 35\<rparr>],
             sqlite_sequence = 1\<rparr>"
  let ?p = "\<lparr>ID = 0, Name = ''Priya'', Email = ''priya@test.com'', Age = 20\<rparr>"
  have missing: "find (\<lambda>r. ID r = 7) (students ?s) = None"
    by simp
  have fine: "healthy UpdatePrepare = None \<and> healthy UpdateExec = None
      \<and> healthy GetPrepare = None \<and> healthy GetScan = None"
    by (simp add: healthy_def)
  have seven: "itoa 7 = ''7''"
    by (simp add: itoa_def digits.simps digit_char_values)
  from update_missing_id_errors_existing_id_rereads [of 7 ?s healthy ?p] missing fine
  have u7: "snd (SQLite_UpdateStudentByID healthy 7 ?p ?s) = ?s"
    and e7: "fst (SQLite_UpdateStudentByID healthy 7 ?p ?s)
      = Inl (ErrorString (''no student found with id: '' @ itoa 7))"
    by blast+
  have u1: "SQLite_UpdateStudentByID healthy 1 ?p ?s
      = (Inr \<lparr>ID = 1, Name = ''Priya'', Email = ''priya@test.com'', Age = 20\<rparr>,
         \<lparr>students = [\<lparr>ID = 1, Name = ''Priya'', Email = ''priya@test.com'', Age = 20\<rparr>],
          sqlite_sequence = 1\<rparr>)"
    by (simp add: SQLite_UpdateStudentByID_def exec_update_def SQLite_GetStudentByID_def
        query_row_def healthy_def)
  have other: "ID ?p \<noteq> 1" by simp
  from update_missing_id_errors_existing_id_rereads [of 1 ?s healthy ?p] u1 other
  have ne: "\<lparr>ID = 1, Name = ''Priya'', Email = ''priya@test.com'', Age = 20\<rparr> \<noteq> ?p"
    by blast
  have "SQLite_UpdateStudentByID healthy 7 ?p ?s
      = (Inl (ErrorString ''no student found with id: 7''), ?s)"
    using u7 e7 seven by (simp add: prod_eq_iff)
  with missing u1 ne show ?thesis by blast
qed

text \<open>
  Claim C3. A successful \<^verbatim>\<open>UpdateStudentByID\<close> of id \<open>i\<close> found a row with that id; afterwards
  each row with id \<open>i\<close> holds the name, email and age of the payload under the id \<open>i\<close>,
  the rows with another id are what they were, no id and not the counter has changed, and
  a \<^verbatim>\<open>GetStudentByID\<close> of \<open>i\<close> whose database calls do not fail returns the new values.
  \<^verbatim>\<open>Update\<close>, given the path id \<open>i\<close> and a valid body that decodes to the payload, answers
  200 with those values.
\<close>

theorem update_overwrites_one_row:
  assumes "SQLite_UpdateStudentByID drv i student s = (Inr u, s')"
  shows "u = \<lparr>ID = i, Name = Name student, Email = Email student, Age = Age student\<rparr>
    \<and> (\<exists>r0. find (\<lambda>r. ID r = i) (students s) = Some r0)
    \<and> students s' = map (\<lambda>r. if ID r = i
          then \<lparr>ID = i, Name = Name student, Email = Email student, Age = Age student\<rparr>
          else r) (students s)
    \<and> filter (\<lambda>r. ID r \<noteq> i) (students s') = filter (\<lambda>r. ID r \<noteq> i) (students s)
    \<and> map ID (students s') = map ID (students s)
    \<and> sqlite_sequence s' = sqlite_sequence s
    \<and> (\<forall>drv'. drv' GetPrepare = None \<and> drv' GetScan = None \<longrightarrow>
          SQLite_GetStudentByID drv' i s'
            = Inr \<lparr>ID = i, Name = Name student, Email = Email student, Age = Age student\<rparr>)
    \<and> (\<forall>p body. ParseInt p = Some i \<and> Decode body = Inr student \<and> validate_Struct student = [] \<longrightarrow>
          Update (SQLite drv) p body s
            = (WriteJSON 200 (OneStudent \<lparr>ID = i, Name = Name student, Email = Email student,
                                           Age = Age student\<rparr>), s'))"
proof -
  let ?new = "\<lparr>ID = i, Name = Name student, Email = Email student, Age = Age student\<rparr>"
  let ?f = "\<lambda>r. if ID r = i
      then r\<lparr>Name := Name student, Email := Email student, Age := Age student\<rparr> else r"
  have f: "?f = (\<lambda>r. if ID r = i then ?new else r)"
    by (rule ext) simp
  from update_Inr [OF assms] have s': "s' = s\<lparr>students := map ?f (students s)\<rparr>"
    by blast
  from update_Inr [OF assms] have g: "SQLite_GetStudentByID drv i s' = Inr u"
    by blast
  from get_Inr [OF g] have fu: "find (\<lambda>r. ID r = i) (students s') = Some u" by simp
  have rows: "students s' = map (\<lambda>r. if ID r = i then ?new else r) (students s)"
    unfolding s' f by simp
  have "find (\<lambda>r. ID r = i) (students s')
      = map_option (\<lambda>r. r\<lparr>Name := Name student, Email := Email student, Age := Age student\<rparr>)
          (find (\<lambda>r. ID r = i) (students s))"
    unfolding s' by (simp add: find_map_update)
  with fu obtain r0 where r0: "find (\<lambda>r. ID r = i) (students s) = Some r0"
    and u0: "u = r0\<lparr>Name := Name student, Email := Email student, Age := Age student\<rparr>"
    by (cases "find (\<lambda>r. ID r = i) (students s)") auto
  from find_Some_ID [OF r0] u0 have u: "u = ?new" by simp
  have others: "filter (\<lambda>r. ID r \<noteq> i) (students s') = filter (\<lambda>r. ID r \<noteq> i) (students s)"
    unfolding rows by (rule filter_map_other) simp
  have ids: "map ID (students s') = map ID (students s)"
    unfolding rows by (simp add: comp_def cong: map_cong)
  have seq: "sqlite_sequence s' = sqlite_sequence s" unfolding s' by simp
  have get: "\<forall>drv'. drv' GetPrepare = None \<and> drv' GetScan = None \<longrightarrow>
          SQLite_GetStudentByID drv' i s' = Inr ?new"
    using fu u by (simp add: SQLite_GetStudentByID_def query_row_def)
  have handler: "\<forall>p body. ParseInt p = Some i \<and> Decode body = Inr student
        \<and> validate_Struct student = [] \<longrightarrow>
          Update (SQLite drv) p body s = (WriteJSON 200 (OneStudent ?new), s')"
    using assms u by (simp add: Update_decoded SQLite_def http_StatusOK_def)
  from u r0 rows others ids seq get handler show ?thesis by blast
qed

text \<open>
  Claim C3 at a store of two students: \<^verbatim>\<open>PUT /api/students/1\<close> with the body
  \<^verbatim>\<open>{"name":"Rakesh Kumar","email":"new@test.com","age":36}\<close> rewrites student 1 and leaves
  student 2 alone.
\<close>

theorem update_overwrites_one_row_witness:
  "SQLite_UpdateStudentByID healthy 1 \<lparr>ID = 0, Name = ''Rakesh Kumar'', Email = ''new@test.com'', Age = 36\<rparr>
     \<lparr>students = [\<lparr>ID = 1, Name = ''Rakesh'', Email = ''rakesh@test.com'', Age = 35\<rparr>,
                  \<lparr>ID = 2, Name = ''Priya'', Email = ''priya@test.com'', Age = 20\<rparr>],
      sqlite_sequence = 2\<rparr>
     = (Inr \<lparr>ID = 1, Name = ''Rakesh Kumar'', Email = ''new@test.com'', Age = 36\<rparr>,
        \<lparr>students = [\<lparr>ID = 1, Name = ''Rakesh Kumar'', Email = ''new@test.com'', Age = 36\<rparr>,
                     \<lparr>ID = 2, Name = ''Priya'', Email = ''priya@test.com'', Age = 20\<rparr>],
         sqlite_sequence = 2\<rparr>)
   \<and> SQLite_GetStudentByID healthy 1
        \<lparr>students = [\<lparr>ID = 1, Name = ''Rakesh Kumar'', Email = ''new@test.com'', Age = 36\<rparr>,
                     \<lparr>ID = 2, Name = ''Priya'', Email = ''priya@test.com'', Age = 20\<rparr>],
         sqlite_sequence = 2\<rparr>
     = Inr \<lparr>ID = 1, Name = ''Rakesh Kumar'', Email = ''new@test.com'', Age = 36\<rparr>
   \<and> Update (SQLite healthy) ''1''
        (JSONValue (JObject [(''name'', JString ''Rakesh Kumar''), (''email'', JString ''new@test.com''),
                             (''age'', JNumber ''36'')]))
        \<lparr>students = [\<lparr>ID = 1, Name = ''Rakesh'', Email = ''rakesh@test.com'', Age = 35\<rparr>,
                     \<lparr>ID = 2, Name = ''Priya'', Email = ''priya@test.com'', Age = 20\<rparr>],
         sqlite_sequence = 2\<rparr>
     = (WriteJSON 200 (OneStudent \<lparr>ID = 1, Name = ''Rakesh Kumar'', Email = ''new@test.com'', Age = 36\<rparr>),
        \<lparr>students = [\<lparr>ID = 1, Name = ''Rakesh Kumar'', Email = ''new@test.com'', Age = 36\<rparr>,
                     \<lparr>ID = 2, Name = ''Priya'', Email = ''priya@test.com'', Age = 20\<rparr>],
         sqlite_sequence = 2\<rparr>)"
proof -
  have h: "SQLite_UpdateStudentByID healthy 1 \<lparr>ID = 0, Name = ''Rakesh Kumar'', Email = ''new@test.com'', Age = 36\<rparr>
     \<lparr>students = [\<lparr>ID = 1, Name = ''Rakesh'', Email = ''rakesh@test.com'', Age = 35\<rparr>,
                  \<lparr>ID = 2, Name = ''Priya'', Email = ''priya@test.com'', Age = 20\<rparr>],
      sqlite_sequence = 2\<rparr>
     = (Inr \<lparr>ID = 1, Name = ''Rakesh Kumar'', Email = ''new@test.com'', Age = 36\<rparr>,
        \<lparr>students = [\<lparr>ID = 1, Name = ''Rakesh Kumar'', Email = ''new@test.com'', Age = 36\<rparr>,
                     \<lparr>ID = 2, Name = ''Priya'', Email = ''priya@test.com'', Age = 20\<rparr>],
         sqlite_sequence = 2\<rparr>)"
    by (simp add: SQLite_UpdateStudentByID_def exec_update_def SQLite_GetStudentByID_def
        query_row_def healthy_def)
  have p: "ParseInt ''1'' = Some 1"
    by (simp add: ParseInt_def digit_val_def)
  have d: "Decode (JSONValue (JObject [(''name'', JString ''Rakesh Kumar''),
                 (''email'', JString ''new@test.com''), (''age'', JNumber ''36'')]))
      = Inr \<lparr>ID = 0, Name = ''Rakesh Kumar'', Email = ''new@test.com'', Age = 36\<rparr>"
    by (simp add: Decode_def set_member_def lower_def zero_Student_def ParseInt_def digit_val_def)
  have v: "validate_Struct \<lparr>ID = 0, Name = ''Rakesh Kumar'', Email = ''new@test.com'', Age = 36\<rparr> = []"
    by (simp add: validate_Struct_def)
  from update_overwrites_one_row [OF h] h p d v show ?thesis
    by (simp add: healthy_def)
qed

text \<open>
  Claim C4. Whether \<^verbatim>\<open>DeleteStudentByID\<close> returns an error depends on the driver alone,
  not on a row matching. When its database calls do not fail it returns no error and
  removes the rows with that id; deleting the same id again gives the same result and
  the same store; a \<^verbatim>\<open>GetStudentByID\<close> of the id then fails, with the not-found error when
  its own database calls do not fail. Deleting an id that no row has leaves the store as
  it was.
\<close>

theorem delete_succeeds_with_or_without_row:
  "(fst (SQLite_DeleteStudentByID drv sid s) = None
      \<longleftrightarrow> drv DeletePrepare = None \<and> drv DeleteExec = None)
   \<and> (drv DeletePrepare = None \<and> drv DeleteExec = None \<longrightarrow>
        SQLite_DeleteStudentByID drv sid s
          = (None, s\<lparr>students := filter (\<lambda>r. ID r \<noteq> sid) (students s)\<rparr>)
        \<and> SQLite_DeleteStudentByID drv sid (snd (SQLite_DeleteStudentByID drv sid s))
          = SQLite_DeleteStudentByID drv sid s
        \<and> (\<exists>e. SQLite_GetStudentByID drv' sid (snd (SQLite_DeleteStudentByID drv sid s)) = Inl e)
        \<and> (drv' GetPrepare = None \<and> drv' GetScan = None \<longrightarrow>
             SQLite_GetStudentByID drv' sid (snd (SQLite_DeleteStudentByID drv sid s))
               = Inl (ErrorString (''no student found with id: '' @ itoa sid))))
   \<and> (find (\<lambda>r. ID r = sid) (students s) = None \<longrightarrow>
        snd (SQLite_DeleteStudentByID drv sid s) = s)"
proof (intro conjI impI)
  show "fst (SQLite_DeleteStudentByID drv sid s) = None
      \<longleftrightarrow> drv DeletePrepare = None \<and> drv DeleteExec = None"
    by (auto simp: SQLite_DeleteStudentByID_def exec_delete_def split: option.splits)
next
  assume "find (\<lambda>r. ID r = sid) (students s) = None"
  then show "snd (SQLite_DeleteStudentByID drv sid s) = s"
    by (auto simp: SQLite_DeleteStudentByID_def exec_delete_def find_None_filter_id
        split: option.splits)
next
  assume h: "drv DeletePrepare = None \<and> drv DeleteExec = None"
  let ?s' = "s\<lparr>students := filter (\<lambda>r. ID r \<noteq> sid) (students s)\<rparr>"
  show d: "SQLite_DeleteStudentByID drv sid s = (None, ?s')"
    using h by (simp add: SQLite_DeleteStudentByID_def exec_delete_def)
  show "SQLite_DeleteStudentByID drv sid (snd (SQLite_DeleteStudentByID drv sid s))
          = SQLite_DeleteStudentByID drv sid s"
    using h by (simp add: SQLite_DeleteStudentByID_def exec_delete_def)
  have gone: "find (\<lambda>r. ID r = sid) (students ?s') = None"
    by (simp add: find_filter_out)
  show "\<exists>e. SQLite_GetStudentByID drv' sid (snd (SQLite_DeleteStudentByID drv sid s)) = Inl e"
    unfolding d using get_missing [OF gone] by simp
  assume "drv' GetPrepare = None \<and> drv' GetScan = None"
  then show "SQLite_GetStudentByID drv' sid (snd (SQLite_DeleteStudentByID drv sid s))
               = Inl (ErrorString (''no student found with id: '' @ itoa sid))"
    unfolding d using get_missing_healthy [OF gone] by simp
qed

text \<open>
  Claim C4 at a store holding student 1: delete it, delete it again, fetch it.
\<close>

theorem delete_succeeds_with_or_without_row_witness:
  "SQLite_DeleteStudentByID healthy 1
     \<lparr>students = [\<lparr>ID = 1, Name = ''Rakesh'', Email = ''rakesh@test.com'', Age = 35\<rparr>],
      sqlite_sequence = 1\<rparr>
     = (None, \<lparr>students = [], sqlite_sequence = 1\<rparr>)
   \<and> SQLite_DeleteStudentByID healthy 1 \<lparr>students = [], sqlite_sequence = 1\<rparr>
     = (None, \<lparr>students = [], sqlite_sequence = 1\<rparr>)
   \<and> SQLite_GetStudentByID healthy 1 \<lparr>students = [], sqlite_sequence = 1\<rparr>
     = Inl (ErrorString ''no student found with id: 1'')"
  using delete_succeeds_with_or_without_row
          [of healthy 1 "\<lparr>students = [\<lparr>ID = 1, Name = ''Rakesh'', Email = ''rakesh@test.com'', Age = 35\<rparr>],
                          sqlite_sequence = 1\<rparr>" healthy]
        delete_succeeds_with_or_without_row
          [of healthy 1 "\<lparr>students = [], sqlite_sequence = 1\<rparr>" healthy]
  by (simp add: healthy_def itoa_def digits.simps digit_char_values SQLite_DeleteStudentByID_def
      exec_delete_def)

section \<open>The handlers: validation, listing, fetching\<close>

lemma validate_Struct_Nil:
  "validate_Struct s = [] \<longleftrightarrow> Name s \<noteq> [] \<and> Email s \<noteq> [] \<and> Age s \<noteq> 0"
  by (simp add: validate_Struct_def)

lemma ParseInt_zero: "ParseInt ''0'' = Some 0"
  by (simp add: ParseInt_def digit_val_def)

lemma decode_age_zero:
  "Decode (JSONValue (JObject [(''name'', JString n), (''email'', JString e), (''age'', JNumber ''0'')]))
     = Inr \<lparr>ID = 0, Name = n, Email = e, Age = 0\<rparr>"
  by (simp add: Decode_def set_member_def zero_Student_def lower_def ParseInt_zero)

text \<open>
  Claim C5. \<^verbatim>\<open>New\<close> and \<^verbatim>\<open>Update\<close> run the same \<^verbatim>\<open>validator.New().Struct\<close> on the decoded
  body: it passes exactly when the name and the email are not empty and the age is not
  zero, and each handler answers 400 with the validation envelope exactly when it does
  not pass. With name and email set and age 0 the message is ``field Age is required'',
  also for the body that spells \<^verbatim>\<open>"age": 0\<close> out.
\<close>

theorem same_validation_for_create_and_update:
  "(validate_Struct s = [] \<longleftrightarrow> Name s \<noteq> [] \<and> Email s \<noteq> [] \<and> Age s \<noteq> 0)
   \<and> (Decode body = Inr s \<longrightarrow>
        (status_code (fst (New st body \<sigma>)) = 400 \<longleftrightarrow> validate_Struct s \<noteq> [])
        \<and> (validate_Struct s \<noteq> [] \<longrightarrow>
             New st body \<sigma>
               = (WriteJSON 400 (Envelope (ValidationError (validate_Struct s))), \<sigma>)))
   \<and> (ParseInt p = Some i \<and> Decode body = Inr s \<longrightarrow>
        (status_code (fst (Update st p body \<sigma>)) = 400 \<longleftrightarrow> validate_Struct s \<noteq> [])
        \<and> (validate_Struct s \<noteq> [] \<longrightarrow>
             Update st p body \<sigma>
               = (WriteJSON 400 (Envelope (ValidationError (validate_Struct s))), \<sigma>)))
   \<and> (Name s \<noteq> [] \<and> Email s \<noteq> [] \<and> Age s = 0 \<longrightarrow>
        ValidationError (validate_Struct s)
          = \<lparr>Status = ''error'', Error = ''field Age is required''\<rparr>)
   \<and> (n \<noteq> [] \<and> e \<noteq> [] \<longrightarrow>
        New st (JSONValue (JObject [(''name'', JString n), (''email'', JString e),
                                    (''age'', JNumber ''0'')])) \<sigma>
          = (WriteJSON 400 (Envelope \<lparr>Status = ''error'', Error = ''field Age is required''\<rparr>), \<sigma>)
        \<and> (ParseInt p = Some i \<longrightarrow>
             Update st p (JSONValue (JObject [(''name'', JString n), (''email'', JString e),
                                              (''age'', JNumber ''0'')])) \<sigma>
               = (WriteJSON 400 (Envelope \<lparr>Status = ''error'', Error = ''field Age is required''\<rparr>),
                  \<sigma>)))"
proof (intro conjI impI)
  show "validate_Struct s = [] \<longleftrightarrow> Name s \<noteq> [] \<and> Email s \<noteq> [] \<and> Age s \<noteq> 0"
    by (rule validate_Struct_Nil)
next
  assume d: "Decode body = Inr s"
  show "status_code (fst (New st body \<sigma>)) = 400 \<longleftrightarrow> validate_Struct s \<noteq> []"
    unfolding New_decoded [OF d]
    by (simp add: StatusBadRequest_def StatusInternalServerError_def StatusCreated_def
        split: list.splits prod.splits sum.splits)
  assume "validate_Struct s \<noteq> []"
  then show "New st body \<sigma>
               = (WriteJSON 400 (Envelope (ValidationError (validate_Struct s))), \<sigma>)"
    unfolding New_decoded [OF d] by (simp add: StatusBadRequest_def split: list.splits)
next
  assume "ParseInt p = Some i \<and> Decode body = Inr s"
  then have p: "ParseInt p = Some i" and d: "Decode body = Inr s" by simp_all
  show "status_code (fst (Update st p body \<sigma>)) = 400 \<longleftrightarrow> validate_Struct s \<noteq> []"
    unfolding Update_decoded [OF p d]
    by (simp add: StatusBadRequest_def StatusInternalServerError_def http_StatusOK_def
        split: list.splits prod.splits sum.splits)
  assume "validate_Struct s \<noteq> []"
  then show "Update st p body \<sigma>
               = (WriteJSON 400 (Envelope (ValidationError (validate_Struct s))), \<sigma>)"
    unfolding Update_decoded [OF p d] by (simp add: StatusBadRequest_def split: list.splits)
next
  assume "Name s \<noteq> [] \<and> Email s \<noteq> [] \<and> Age s = 0"
  then show "ValidationError (validate_Struct s)
          = \<lparr>Status = ''error'', Error = ''field Age is required''\<rparr>"
    by (simp add: ValidationError_def validate_Struct_def field_sentence_def StatusError_def)
next
  assume ne: "n \<noteq> [] \<and> e \<noteq> []"
  let ?b = "JSONValue (JObject [(''name'', JString n), (''email'', JString e), (''age'', JNumber ''0'')])"
  show "New st ?b \<sigma>
          = (WriteJSON 400 (Envelope \<lparr>Status = ''error'', Error = ''field Age is required''\<rparr>), \<sigma>)"
    unfolding New_decoded [OF decode_age_zero] using ne
    by (simp add: validate_Struct_def ValidationError_def field_sentence_def StatusError_def
        StatusBadRequest_def)
  assume p: "ParseInt p = Some i"
  show "Update st p ?b \<sigma>
          = (WriteJSON 400 (Envelope \<lparr>Status = ''error'', Error = ''field Age is required''\<rparr>), \<sigma>)"
    unfolding Update_decoded [OF p decode_age_zero] using ne
    by (simp add: validate_Struct_def ValidationError_def field_sentence_def StatusError_def
        StatusBadRequest_def)
qed


text \<open>
  Claim C5 at the body \<^verbatim>\<open>{"name":"Rakesh","email":"rakesh@test.com","age":0}\<close>.
\<close>

theorem same_validation_for_create_and_update_witness:
  "New (SQLite healthy)
     (JSONValue (JObject [(''name'', JString ''Rakesh''), (''email'', JString ''rakesh@test.com''),
                          (''age'', JNumber ''0'')])) SQLite_New
     = (WriteJSON 400 (Envelope \<lparr>Status = ''error'', Error = ''field Age is required''\<rparr>), SQLite_New)
   \<and> ParseInt ''1'' = Some 1
   \<and> Update (SQLite healthy) ''1''
     (JSONValue (JObject [(''name'', JString ''Rakesh''), (''email'', JString ''rakesh@test.com''),
                          (''age'', JNumber ''0'')])) SQLite_New
     = (WriteJSON 400 (Envelope \<lparr>Status = ''error'', Error = ''field Age is required''\<rparr>), SQLite_New)"
proof -
  have p: "ParseInt ''1'' = Some 1"
    by (simp add: ParseInt_def digit_val_def)
  from same_validation_for_create_and_update
         [of "\<lparr>ID = 0, Name = ''Rakesh'', Email = ''rakesh@test.com'', Age = 0\<rparr>"
             "JSONValue (JObject [(''name'', JString ''Rakesh''), (''email'', JString ''rakesh@test.com''),
                                  (''age'', JNumber ''0'')])"
             "SQLite healthy" SQLite_New "''1''" 1 "''Rakesh''" "''rakesh@test.com''"] p
  show ?thesis by simp
qed

lemma scan_rows_Inl_wrapped: "scan_rows drv i rs acc = Inl e \<Longrightarrow> \<exists>c. Unwrap e = Some c"
  by (induction rs arbitrary: i acc) (auto simp: Errorf_w_def split: option.splits)

lemma GetStudents_not_nil: "SQLite_GetStudents drv s \<noteq> Inr None"
  by (simp add: SQLite_GetStudents_def split: option.splits sum.splits)

text \<open>
  Claim C6. \<^verbatim>\<open>GetStudents\<close> never returns a nil slice without an error. On an empty table,
  when its database calls do not fail, it returns the empty non-nil slice, and \<^verbatim>\<open>GetList\<close>
  answers 200 with the body \<^verbatim>\<open>[]\<close> and a newline; under any driver, a 200 from \<^verbatim>\<open>GetList\<close>
  on an empty table carries \<^verbatim>\<open>[]\<close>.
\<close>

theorem list_of_empty_store_is_empty_array:
  "SQLite_GetStudents drv s \<noteq> Inr None
   \<and> (students s = [] \<and> drv ListPrepare = None \<and> drv ListQuery = None \<and> drv (ListNext 0) = None \<longrightarrow>
        SQLite_GetStudents drv s = Inr (Some [])
        \<and> GetList (SQLite drv) s = (WriteJSON 200 (StudentSlice (Some [])), s)
        \<and> response_body q (fst (GetList (SQLite drv) s)) = ''[]'' @ [CHR 0x0A])
   \<and> (students s = [] \<and> status_code (fst (GetList (SQLite drv) s)) = 200 \<longrightarrow>
        data (fst (GetList (SQLite drv) s)) = StudentSlice (Some [])
        \<and> encode_payload q (data (fst (GetList (SQLite drv) s))) = ''[]'')"
proof (intro conjI impI)
  show "SQLite_GetStudents drv s \<noteq> Inr None" by (rule GetStudents_not_nil)
next
  assume h: "students s = [] \<and> drv ListPrepare = None \<and> drv ListQuery = None \<and> drv (ListNext 0) = None"
  then show g: "SQLite_GetStudents drv s = Inr (Some [])"
    by (simp add: SQLite_GetStudents_def)
  then show l: "GetList (SQLite drv) s = (WriteJSON 200 (StudentSlice (Some [])), s)"
    by (simp add: GetList_def SQLite_def http_StatusOK_def)
  show "response_body q (fst (GetList (SQLite drv) s)) = ''[]'' @ [CHR 0x0A]"
    unfolding l by (simp add: response_body_def)
next
  assume h: "students s = [] \<and> status_code (fst (GetList (SQLite drv) s)) = 200"
  then have "SQLite_GetStudents drv s = Inr (Some [])"
    by (auto simp: GetList_def SQLite_def SQLite_GetStudents_def StatusInternalServerError_def
        Errorf_w_def split: option.splits sum.splits)
  then have l: "GetList (SQLite drv) s = (WriteJSON 200 (StudentSlice (Some [])), s)"
    by (simp add: GetList_def SQLite_def http_StatusOK_def)
  show "data (fst (GetList (SQLite drv) s)) = StudentSlice (Some [])"
    unfolding l by simp
  show "encode_payload q (data (fst (GetList (SQLite drv) s))) = ''[]''"
    unfolding l by simp
qed

text \<open>
  Claim C6 at the fresh store.
\<close>

theorem list_of_empty_store_is_empty_array_witness:
  "students SQLite_New = [] \<and> healthy ListPrepare = None \<and> healthy ListQuery = None
   \<and> healthy (ListNext 0) = None
   \<and> SQLite_GetStudents healthy SQLite_New = Inr (Some [])
   \<and> GetList (SQLite healthy) SQLite_New = (WriteJSON 200 (StudentSlice (Some [])), SQLite_New)
   \<and> response_body (\<lambda>x. x) (fst (GetList (SQLite healthy) SQLite_New)) = ''[]'' @ [CHR 0x0A]"
proof -
  have h: "students SQLite_New = [] \<and> healthy ListPrepare = None \<and> healthy ListQuery = None
      \<and> healthy (ListNext 0) = None"
    by (simp add: SQLite_New_def healthy_def)
  from list_of_empty_store_is_empty_array [of healthy SQLite_New "\<lambda>x. x"] h
  show ?thesis by (simp add: response_body_def)
qed


text \<open>
  Claim C7. For a path id that parses to an integer no row has, \<^verbatim>\<open>GetByID\<close> answers 500
  with the error envelope carrying the message of the error \<^verbatim>\<open>GetStudentByID\<close> returned:
  the not-found message when no database call fails, and, through the same status and
  envelope, the wrapped driver message when \<^verbatim>\<open>Prepare\<close> fails.
\<close>

theorem get_missing_id_is_500:
  assumes "ParseInt p = Some i" and "find (\<lambda>r. ID r = i) (students s) = None"
  shows "(\<exists>e. SQLite_GetStudentByID drv i s = Inl e
            \<and> GetByID (SQLite drv) p s
                = (WriteJSON 500 (Envelope \<lparr>Status = ''error'', Error = errorMsg e\<rparr>), s))
    \<and> (drv GetPrepare = None \<and> drv GetScan = None \<longrightarrow>
         GetByID (SQLite drv) p s
           = (WriteJSON 500 (Envelope \<lparr>Status = ''error'',
                                        Error = ''no student found with id: '' @ itoa i\<rparr>), s))
    \<and> (\<forall>c. drv GetPrepare = Some c \<longrightarrow>
         GetByID (SQLite drv) p s
           = (WriteJSON 500 (Envelope \<lparr>Status = ''error'',
                                        Error = ''GetStudentByID: prepare: '' @ errorMsg c\<rparr>), s))"
proof (intro conjI impI allI)
  from get_missing [OF assms(2)] obtain e where e: "SQLite_GetStudentByID drv i s = Inl e"
    by blast
  then have "GetByID (SQLite drv) p s
      = (WriteJSON 500 (Envelope \<lparr>Status = ''error'', Error = errorMsg e\<rparr>), s)"
    using assms(1)
    by (simp add: GetByID_def SQLite_def StatusInternalServerError_def GeneralError_def
        StatusError_def)
  with e show "\<exists>e. SQLite_GetStudentByID drv i s = Inl e
      \<and> GetByID (SQLite drv) p s
          = (WriteJSON 500 (Envelope \<lparr>Status = ''error'', Error = errorMsg e\<rparr>), s)"
    by blast
next
  assume "drv GetPrepare = None \<and> drv GetScan = None"
  then have "SQLite_GetStudentByID drv i s
      = Inl (ErrorString (''no student found with id: '' @ itoa i))"
    using get_missing_healthy [OF assms(2)] by simp
  then show "GetByID (SQLite drv) p s
      = (WriteJSON 500 (Envelope \<lparr>Status = ''error'',
                                   Error = ''no student found with id: '' @ itoa i\<rparr>), s)"
    using assms(1)
    by (simp add: GetByID_def SQLite_def StatusInternalServerError_def GeneralError_def
        StatusError_def)
next
  fix c assume "drv GetPrepare = Some c"
  then have "SQLite_GetStudentByID drv i s = Inl (Errorf_w ''GetStudentByID: prepare: '' c)"
    by (simp add: SQLite_GetStudentByID_def)
  then show "GetByID (SQLite drv) p s
      = (WriteJSON 500 (Envelope \<lparr>Status = ''error'',
                                   Error = ''GetStudentByID: prepare: '' @ errorMsg c\<rparr>), s)"
    using assms(1)
    by (simp add: GetByID_def SQLite_def StatusInternalServerError_def GeneralError_def
        StatusError_def Errorf_w_def)
qed

text \<open>
  Claim C7 at id 5 of the fresh store, with a healthy driver and with a locked database.
\<close>

theorem get_missing_id_is_500_witness:
  "ParseInt ''5'' = Some 5
   \<and> find (\<lambda>r. ID r = 5) (students SQLite_New) = None
   \<and> GetByID (SQLite healthy) ''5'' SQLite_New
     = (WriteJSON 500 (Envelope \<lparr>Status = ''error'', Error = ''no student found with id: 5''\<rparr>),
        SQLite_New)
   \<and> GetByID (SQLite (healthy(GetPrepare \<mapsto> ErrorString ''database is locked''))) ''5'' SQLite_New
     = (WriteJSON 500 (Envelope \<lparr>Status = ''error'',
                                  Error = ''GetStudentByID: prepare: database is locked''\<rparr>),
        SQLite_New)"
proof -
  have p: "ParseInt ''5'' = Some 5"
    by (simp add: ParseInt_def digit_val_def)
  have f: "find (\<lambda>r. ID r = 5) (students SQLite_New) = None"
    by (simp add: SQLite_New_def)
  from get_missing_id_is_500 [OF p f, of healthy]
    get_missing_id_is_500 [OF p f, of "healthy(GetPrepare \<mapsto> ErrorString ''database is locked'')"]
    p f
  show ?thesis
    by (simp add: healthy_def itoa_def digits.simps digit_char_values)
qed

section \<open>The not-found error\<close>

lemma get_Inl_cases:
  assumes "SQLite_GetStudentByID drv sid s = Inl e"
  shows "(e = ErrorString (''no student found with id: '' @ itoa sid)
            \<and> drv GetPrepare = None \<and> query_row drv sid s = Inl ErrNoRows)
       \<or> (\<exists>c. e = Errorf_w ''GetStudentByID: prepare: '' c \<and> drv GetPrepare = Some c)
       \<or> (\<exists>c. e = Errorf_w ''GetStudentByID: scan: '' c \<and> drv GetPrepare = None
              \<and> query_row drv sid s = Inl c \<and> c \<noteq> ErrNoRows)"
  using assms
  by (auto simp: SQLite_GetStudentByID_def split: option.splits sum.splits if_splits)

lemma create_Inl_wrapped:
  "SQLite_CreateStudent drv name email age s = (Inl e, s') \<Longrightarrow> \<exists>c. Unwrap e = Some c"
  by (auto simp: SQLite_CreateStudent_def Errorf_w_def split: option.splits sum.splits)

lemma list_Inl_wrapped: "SQLite_GetStudents drv s = Inl e \<Longrightarrow> \<exists>c. Unwrap e = Some c"
  by (auto simp: SQLite_GetStudents_def Errorf_w_def dest: scan_rows_Inl_wrapped
      split: option.splits sum.splits)

lemma delete_Some_wrapped:
  "SQLite_DeleteStudentByID drv sid s = (Some e, s') \<Longrightarrow> \<exists>c. Unwrap e = Some c"
  by (auto simp: SQLite_DeleteStudentByID_def Errorf_w_def split: option.splits sum.splits)

text \<open>
  Claim C8. When \<^verbatim>\<open>Prepare\<close> and \<^verbatim>\<open>Scan\<close> do not fail and no row has the id,
  \<^verbatim>\<open>GetStudentByID\<close> fails with the error ``no student found with id: N''. A caller can
  tell that error from every other one the storage returns: it alone wraps no cause
  (\<^verbatim>\<open>errors.Unwrap\<close> gives nil), which happens exactly when \<^verbatim>\<open>Scan\<close> reported
  \<^verbatim>\<open>sql.ErrNoRows\<close>; every other error of \<^verbatim>\<open>GetStudentByID\<close> wraps its cause under a message
  that starts ``GetStudentByID: '', and every error of the other four methods wraps a
  cause too, save the not-found error that \<^verbatim>\<open>UpdateStudentByID\<close> passes on from its re-read.
\<close>

theorem not_found_error_is_distinct:
  "(drv GetPrepare = None \<and> drv GetScan = None \<and> find (\<lambda>r. ID r = sid) (students s) = None \<longrightarrow>
      SQLite_GetStudentByID drv sid s = Inl (ErrorString (''no student found with id: '' @ itoa sid)))
   \<and> (\<forall>e. SQLite_GetStudentByID drv sid s = Inl e \<longrightarrow>
        (Unwrap e = None \<longleftrightarrow> e = ErrorString (''no student found with id: '' @ itoa sid))
        \<and> (Unwrap e = None \<longleftrightarrow> drv GetPrepare = None \<and> query_row drv sid s = Inl ErrNoRows)
        \<and> (Unwrap e \<noteq> None \<longrightarrow>
             take 16 (errorMsg e) = ''GetStudentByID: ''
             \<and> (\<forall>j. errorMsg e \<noteq> ''no student found with id: '' @ itoa j)))
   \<and> (\<forall>e s'. SQLite_CreateStudent drv name email age s = (Inl e, s') \<longrightarrow> Unwrap e \<noteq> None)
   \<and> (\<forall>e. SQLite_GetStudents drv s = Inl e \<longrightarrow> Unwrap e \<noteq> None)
   \<and> (\<forall>e s'. SQLite_DeleteStudentByID drv sid s = (Some e, s') \<longrightarrow> Unwrap e \<noteq> None)
   \<and> (\<forall>e s'. SQLite_UpdateStudentByID drv sid student s = (Inl e, s') \<longrightarrow>
        (Unwrap e = None \<longleftrightarrow> e = ErrorString (''no student found with id: '' @ itoa sid)))"
proof (intro conjI impI allI)
  assume "drv GetPrepare = None \<and> drv GetScan = None \<and> find (\<lambda>r. ID r = sid) (students s) = None"
  then show "SQLite_GetStudentByID drv sid s
      = Inl (ErrorString (''no student found with id: '' @ itoa sid))"
    by (simp add: get_missing_healthy)
next
  fix e assume g: "SQLite_GetStudentByID drv sid s = Inl e"
  from get_Inl_cases [OF g]
  show "Unwrap e = None \<longleftrightarrow> e = ErrorString (''no student found with id: '' @ itoa sid)"
    by (auto simp: Errorf_w_def)
  from get_Inl_cases [OF g]
  show "Unwrap e = None \<longleftrightarrow> drv GetPrepare = None \<and> query_row drv sid s = Inl ErrNoRows"
    by (auto simp: Errorf_w_def)
  assume w: "Unwrap e \<noteq> None"
  from get_Inl_cases [OF g] w
  show "take 16 (errorMsg e) = ''GetStudentByID: ''"
    by (auto simp: Errorf_w_def)
  fix j
  from get_Inl_cases [OF g] w
  show "errorMsg e \<noteq> ''no student found with id: '' @ itoa j"
    by (auto simp: Errorf_w_def)
next
  fix e s' assume "SQLite_CreateStudent drv name email age s = (Inl e, s')"
  from create_Inl_wrapped [OF this] show "Unwrap e \<noteq> None" by auto
next
  fix e assume "SQLite_GetStudents drv s = Inl e"
  from list_Inl_wrapped [OF this] show "Unwrap e \<noteq> None" by auto
next
  fix e s' assume "SQLite_DeleteStudentByID drv sid s = (Some e, s')"
  from delete_Some_wrapped [OF this] show "Unwrap e \<noteq> None" by auto
next
  fix e s' assume u: "SQLite_UpdateStudentByID drv sid student s = (Inl e, s')"
  then consider (own) c where "Unwrap e = Some c"
      "take 19 (errorMsg e) = ''UpdateStudentByID: ''"
    | (reread) "SQLite_GetStudentByID drv sid s' = Inl e"
    by (auto simp: SQLite_UpdateStudentByID_def Errorf_w_def split: option.splits sum.splits)
  then show "Unwrap e = None \<longleftrightarrow> e = ErrorString (''no student found with id: '' @ itoa sid)"
  proof cases
    case own
    then show ?thesis by auto
  next
    case reread
    from get_Inl_cases [OF reread] show ?thesis by (auto simp: Errorf_w_def)
  qed
qed

text \<open>
  Claim C8 at id 5 of the fresh store: not found with a healthy driver, a wrapped scan
  error with a locked database.
\<close>

theorem not_found_error_is_distinct_witness:
  "healthy GetPrepare = None \<and> healthy GetScan = None
   \<and> find (\<lambda>r. ID r = 5) (students SQLite_New) = None
   \<and> SQLite_GetStudentByID healthy 5 SQLite_New = Inl (ErrorString ''no student found with id: 5'')
   \<and> Unwrap (ErrorString ''no student found with id: 5'') = None
   \<and> SQLite_GetStudentByID (healthy(GetScan \<mapsto> ErrorString ''database is locked'')) 5 SQLite_New
     = Inl (WrapError ''GetStudentByID: scan: database is locked'' (ErrorString ''database is locked''))
   \<and> Unwrap (WrapError ''GetStudentByID: scan: database is locked'' (ErrorString ''database is locked''))
     = Some (ErrorString ''database is locked'')"
proof -
  have h: "healthy GetPrepare = None \<and> healthy GetScan = None
      \<and> find (\<lambda>r. ID r = 5) (students SQLite_New) = None"
    by (simp add: healthy_def SQLite_New_def)
  have g: "SQLite_GetStudentByID (healthy(GetScan \<mapsto> ErrorString ''database is locked'')) 5 SQLite_New
     = Inl (WrapError ''GetStudentByID: scan: database is locked'' (ErrorString ''database is locked''))"
    by (simp add: SQLite_GetStudentByID_def query_row_def healthy_def Errorf_w_def)
  from not_found_error_is_distinct [of healthy 5 SQLite_New]
    not_found_error_is_distinct [of "healthy(GetScan \<mapsto> ErrorString ''database is locked'')" 5 SQLite_New]
    h g
  show ?thesis
    by (simp add: itoa_def digits.simps digit_char_values)
qed

section \<open>The handlers: whole answers and rejected requests\<close>












lemma New_SQLite_201:
  assumes "New (SQLite drv) body s = (r, s')" and "status_code r = 201"
  shows "\<exists>i d. Decode body = Inr d \<and> validate_Struct d = [] \<and> data r = IdMap i
           \<and> new_rowid s = Some i
           \<and> s' = s\<lparr>students := students s @ [\<lparr>ID = i, Name = Name d, Email = Email d, Age = Age d\<rparr>],
                     sqlite_sequence := i\<rparr>"
proof -
  from assms obtain d i where d: "Decode body = Inr d" and v: "validate_Struct d = []"
    and c: "SQLite_CreateStudent drv (Name d) (Email d) (Age d) s = (Inr i, s')"
    and r: "r = WriteJSON StatusCreated (IdMap i)"
    by (auto simp: New_def SQLite_def StatusBadRequest_def StatusInternalServerError_def
        split: sum.splits list.splits prod.splits if_splits)
  from exec_insert_Inr [OF create_Inr [OF c]] d v r show ?thesis by auto
qed













section \<open>The id member of a create request\<close>

lemma set_member_agree:
  assumes "Name a = Name b" and "Email a = Email b" and "Age a = Age b"
  shows "Name (fst (set_member kv (a, e))) = Name (fst (set_member kv (b, e)))
       \<and> Email (fst (set_member kv (a, e))) = Email (fst (set_member kv (b, e)))
       \<and> Age (fst (set_member kv (a, e))) = Age (fst (set_member kv (b, e)))
       \<and> snd (set_member kv (a, e)) = snd (set_member kv (b, e))"
  using assms
  by (cases "snd kv") (auto simp: set_member_def Let_def split: option.splits)

lemma fold_set_member_agree:
  assumes "Name a = Name b" and "Email a = Email b" and "Age a = Age b"
  shows "Name (fst (fold set_member kvs (a, e))) = Name (fst (fold set_member kvs (b, e)))
       \<and> Email (fst (fold set_member kvs (a, e))) = Email (fst (fold set_member kvs (b, e)))
       \<and> Age (fst (fold set_member kvs (a, e))) = Age (fst (fold set_member kvs (b, e)))
       \<and> snd (fold set_member kvs (a, e)) = snd (fold set_member kvs (b, e))"
  using assms
proof (induction kvs arbitrary: a b e)
  case Nil
  then show ?case by simp
next
  case (Cons kv kvs)
  obtain a' ea where a': "set_member kv (a, e) = (a', ea)" by (cases "set_member kv (a, e)")
  obtain b' eb where b': "set_member kv (b, e) = (b', eb)" by (cases "set_member kv (b, e)")
  from set_member_agree [OF Cons.prems, of kv e] a' b'
  have "Name a' = Name b'" "Email a' = Email b'" "Age a' = Age b'" "ea = eb" by simp_all
  with Cons.IH [of a' b' ea] a' b' show ?case by simp
qed

lemma set_member_integer_id:
  assumes "map lower k = ''id''"
    and "v = JNull \<or> (\<exists>lit n. v = JNumber lit \<and> ParseInt lit = Some n)"
  shows "Name (fst (set_member (k, v) (a, e))) = Name a
       \<and> Email (fst (set_member (k, v) (a, e))) = Email a
       \<and> Age (fst (set_member (k, v) (a, e))) = Age a
       \<and> snd (set_member (k, v) (a, e)) = e"
  using assms by (auto simp: set_member_def Let_def)

lemma unmarshal_integer_id_ignored:
  assumes "map lower k = ''id''"
    and "v = JNull \<or> (\<exists>lit n. v = JNumber lit \<and> ParseInt lit = Some n)"
  shows "(\<exists>err. Decode (JSONValue (JObject (pre @ (k, v) # post))) = Inl err
            \<and> Decode (JSONValue (JObject (pre @ post))) = Inl err)
       \<or> (\<exists>d d'. Decode (JSONValue (JObject (pre @ (k, v) # post))) = Inr d
            \<and> Decode (JSONValue (JObject (pre @ post))) = Inr d'
            \<and> Name d = Name d' \<and> Email d = Email d' \<and> Age d = Age d')"
proof -
  obtain a e where p: "fold set_member pre (zero_Student, None) = (a, e)"
    by (cases "fold set_member pre (zero_Student, None)")
  obtain a' e' where m: "set_member (k, v) (a, e) = (a', e')"
    by (cases "set_member (k, v) (a, e)")
  from set_member_integer_id [OF assms, of a e] m
  have same: "Name a' = Name a" "Email a' = Email a" "Age a' = Age a" and e': "e' = e"
    by simp_all
  obtain d ed where w: "fold set_member post (a', e) = (d, ed)"
    by (cases "fold set_member post (a', e)")
  obtain d' ed' where wo: "fold set_member post (a, e) = (d', ed')"
    by (cases "fold set_member post (a, e)")
  from fold_set_member_agree [OF same, of post e] w wo
  have agree: "Name d = Name d'" "Email d = Email d'" "Age d = Age d'" "ed = ed'"
    by simp_all
  have with_id: "fold set_member (pre @ (k, v) # post) (zero_Student, None) = (d, ed)"
    using p m e' w by simp
  have without: "fold set_member (pre @ post) (zero_Student, None) = (d', ed')"
    using p wo by simp
  show ?thesis
    using with_id without agree
    by (cases ed') (simp_all add: Decode_def)
qed

lemma set_member_other_id:
  assumes "map lower k = ''id''" and "v \<noteq> JNull"
    and "\<not> (\<exists>lit n. v = JNumber lit \<and> ParseInt lit = Some n)"
  shows "\<exists>err. snd (set_member (k, v) (a, e)) = Some err"
  using assms
  by (cases v) (auto simp: set_member_def Let_def saveError_def split: option.splits)

lemma set_member_keeps_error: "snd (set_member kv (a, Some err)) = Some err"
  by (cases "snd kv")
    (auto simp: set_member_def Let_def saveError_def split: option.splits sum.splits)

lemma fold_set_member_keeps_error: "snd (fold set_member kvs (a, Some err)) = Some err"
proof (induction kvs arbitrary: a)
  case Nil
  show ?case by simp
next
  case (Cons kv kvs)
  obtain a' where "set_member kv (a, Some err) = (a', Some err)"
    using set_member_keeps_error [of kv a err] by (cases "set_member kv (a, Some err)") simp
  with Cons.IH [of a'] show ?case by simp
qed

lemma unmarshal_other_id_fails:
  assumes "map lower k = ''id''" and "v \<noteq> JNull"
    and "\<not> (\<exists>lit n. v = JNumber lit \<and> ParseInt lit = Some n)"
  shows "\<exists>err. Decode (JSONValue (JObject (pre @ (k, v) # post))) = Inl err"
proof -
  obtain a e where p: "fold set_member pre (zero_Student, None) = (a, e)"
    by (cases "fold set_member pre (zero_Student, None)")
  from set_member_other_id [OF assms, of a e] obtain a' err
    where m: "set_member (k, v) (a, e) = (a', Some err)"
    by (cases "set_member (k, v) (a, e)") auto
  obtain d where "fold set_member post (a', Some err) = (d, Some err)"
    using fold_set_member_keeps_error [of post a' err]
    by (cases "fold set_member post (a', Some err)") simp
  with p m have "fold set_member (pre @ (k, v) # post) (zero_Student, None) = (d, Some err)"
    by simp
  then show ?thesis by (simp add: Decode_def)
qed

lemma New_undecoded:
  assumes "Decode body = Inl err"
  shows "status_code (fst (New st body \<sigma>)) = 400" and "snd (New st body \<sigma>) = \<sigma>"
    and "New st' body \<tau> = (fst (New st body \<sigma>), \<tau>)"
  using assms by (simp_all add: New_def StatusBadRequest_def)

lemma digit_val_digit_char: "0 \<le> d \<Longrightarrow> d < 10 \<Longrightarrow> digit_val (digit_char d) = Some d"
  by (simp add: digit_val_def digit_char_def Let_def)

lemma parse_digits_append:
  "parse_digits acc (xs @ ys)
     = (case parse_digits acc xs of None \<Rightarrow> None | Some a \<Rightarrow> parse_digits a ys)"
  by (induction xs arbitrary: acc) (auto split: option.splits)

lemma parse_digits_digits: "0 \<le> n \<Longrightarrow> parse_digits 0 (digits n) = Some n"
proof (induction n rule: digits.induct)
  case (1 n)
  show ?case
  proof (cases "n < 10")
    case True
    with "1.prems" show ?thesis
      by (subst digits.simps) (simp add: digit_val_digit_char)
  next
    case False
    with "1.prems" have "parse_digits 0 (digits (n div 10)) = Some (n div 10)"
      by (intro "1.IH") auto
    moreover have "digit_val (digit_char (n mod 10)) = Some (n mod 10)"
      by (rule digit_val_digit_char) simp_all
    ultimately show ?thesis
      using False by (subst digits.simps) (simp add: parse_digits_append)
  qed
qed

lemma digits_not_empty: "digits n \<noteq> []"
  by (subst digits.simps) simp

lemma parse_digits_head: "parse_digits acc (c # cs) = Some m \<Longrightarrow> \<exists>d. digit_val c = Some d"
  by (cases "digit_val c") simp_all

lemma digits_head_no_sign:
  assumes "0 \<le> n"
  shows "hd (digits n) \<noteq> CHR ''+''" and "hd (digits n) \<noteq> CHR ''-''"
proof -
  obtain c cs where d: "digits n = c # cs"
    using digits_not_empty [of n] by (cases "digits n") auto
  from parse_digits_digits [OF assms] d obtain v where v: "digit_val c = Some v"
    using parse_digits_head by metis
  have "digit_val CHR ''+'' = None" "digit_val CHR ''-'' = None"
    by (simp_all add: digit_val_def)
  with v d show "hd (digits n) \<noteq> CHR ''+''" and "hd (digits n) \<noteq> CHR ''-''"
    by auto
qed

lemma ParseInt_itoa:
  "ParseInt (itoa n) = (if - (2 ^ 63) \<le> n \<and> n < 2 ^ 63 then Some n else None)"
proof (cases "n < 0")
  case True
  then have "0 \<le> - n" by simp
  from parse_digits_digits [OF this] digits_not_empty [of "- n"] True show ?thesis
    by (simp add: ParseInt_def itoa_def)
next
  case False
  then have n: "0 \<le> n" by simp
  from parse_digits_digits [OF n] digits_not_empty [of n] digits_head_no_sign [OF n] False
  show ?thesis
    by (simp add: ParseInt_def itoa_def)
qed

lemma parse_digits_nonneg: "0 \<le> acc \<Longrightarrow> parse_digits acc cs = Some m \<Longrightarrow> 0 \<le> m"
proof (induction cs arbitrary: acc)
  case Nil
  then show ?case by simp
next
  case (Cons c cs)
  from Cons.prems(2) obtain d where d: "digit_val c = Some d"
    and r: "parse_digits (acc * 10 + d) cs = Some m"
    by (cases "digit_val c") simp_all
  from d have "0 \<le> d" by (auto simp: digit_val_def Let_def split: if_splits)
  with Cons.prems(1) have "0 \<le> acc * 10 + d" by simp
  from Cons.IH [OF this r] show ?case .
qed

lemma ParseInt_range: "ParseInt lit = Some n \<Longrightarrow> - (2 ^ 63) \<le> n \<and> n < 2 ^ 63"
proof -
  assume p: "ParseInt lit = Some n"
  let ?s' = "if hd lit = CHR ''+'' \<or> hd lit = CHR ''-'' then tl lit else lit"
  from p obtain un where u: "parse_digits 0 ?s' = Some un"
    by (auto simp: ParseInt_def Let_def split: if_splits option.splits)
  from parse_digits_nonneg [OF _ u] have "0 \<le> un" by simp
  with p u show ?thesis
    by (auto simp: ParseInt_def Let_def split: if_splits option.splits)
qed

text \<open>
  Claim C10, amended. Take a member of the body whose key is \<^verbatim>\<open>id\<close> in any case of letters.
  If its value is \<^verbatim>\<open>null\<close> or a number literal that \<^verbatim>\<open>ParseInt\<close> accepts, it changes
  nothing: \<^verbatim>\<open>New\<close> answers and leaves the storage as for the body without that member, and
  on the SQLite store a 201 carries the rowid the store chose, the row stored under it
  holding the decoded name, email and age. Two bodies that decode to structs differing in
  \<^verbatim>\<open>ID\<close> only are treated alike. If its value is anything else, whatever the rest of the
  body is, \<^verbatim>\<open>New\<close> answers 400, leaves the state behind the storage as it was and calls no
  method of it. The literals \<^verbatim>\<open>ParseInt\<close> accepts denote integers from \<open>- 2 ^ 63\<close> to
  \<open>2 ^ 63 - 1\<close>, and the decimal literal of an integer is accepted exactly when the integer
  lies in that range.
\<close>

theorem client_id_is_ignored_or_rejected:
  assumes "map lower k = ''id''"
  shows "(v = JNull \<or> (\<exists>lit n. v = JNumber lit \<and> ParseInt lit = Some n) \<longrightarrow>
           New st (JSONValue (JObject (pre @ (k, v) # post))) \<sigma>
             = New st (JSONValue (JObject (pre @ post))) \<sigma>
           \<and> (\<forall>r s'. New (SQLite drv) (JSONValue (JObject (pre @ (k, v) # post))) s = (r, s')
                        \<and> status_code r = 201 \<longrightarrow>
                 (\<exists>i d. new_rowid s = Some i \<and> data r = IdMap i
                    \<and> Decode (JSONValue (JObject (pre @ post))) = Inr d
                    \<and> s' = s\<lparr>students := students s
                                  @ [\<lparr>ID = i, Name = Name d, Email = Email d, Age = Age d\<rparr>],
                              sqlite_sequence := i\<rparr>)))
    \<and> (\<forall>body body' d x. Decode body = Inr d \<and> Decode body' = Inr (d\<lparr>ID := x\<rparr>) \<longrightarrow>
          New st body' \<sigma> = New st body \<sigma>)
    \<and> (\<not> (v = JNull \<or> (\<exists>lit n. v = JNumber lit \<and> ParseInt lit = Some n)) \<longrightarrow>
           status_code (fst (New st (JSONValue (JObject (pre @ (k, v) # post))) \<sigma>)) = 400
           \<and> snd (New st (JSONValue (JObject (pre @ (k, v) # post))) \<sigma>) = \<sigma>
           \<and> (\<forall>st' \<tau>. New st' (JSONValue (JObject (pre @ (k, v) # post))) \<tau>
                 = (fst (New st (JSONValue (JObject (pre @ (k, v) # post))) \<sigma>), \<tau>)))
    \<and> (\<forall>lit n. ParseInt lit = Some n \<longrightarrow> - (2 ^ 63) \<le> n \<and> n < 2 ^ 63)
    \<and> (\<forall>n. ParseInt (itoa n) = (if - (2 ^ 63) \<le> n \<and> n < 2 ^ 63 then Some n else None))"
proof (intro conjI allI impI)
  assume v: "v = JNull \<or> (\<exists>lit n. v = JNumber lit \<and> ParseInt lit = Some n)"
  have same: "New st' (JSONValue (JObject (pre @ (k, v) # post))) \<tau>
      = New st' (JSONValue (JObject (pre @ post))) \<tau>" for st' :: "'t Storage" and \<tau>
    using unmarshal_integer_id_ignored [OF assms v, of pre post]
  proof (elim disjE exE conjE)
    fix err
    assume "Decode (JSONValue (JObject (pre @ (k, v) # post))) = Inl err"
      and "Decode (JSONValue (JObject (pre @ post))) = Inl err"
    then show ?thesis by (simp add: New_def)
  next
    fix d d'
    assume "Decode (JSONValue (JObject (pre @ (k, v) # post))) = Inr d"
      and "Decode (JSONValue (JObject (pre @ post))) = Inr d'"
      and "Name d = Name d'" and "Email d = Email d'" and "Age d = Age d'"
    then show ?thesis by (simp add: New_decoded validate_Struct_def)
  qed
  show "New st (JSONValue (JObject (pre @ (k, v) # post))) \<sigma>
      = New st (JSONValue (JObject (pre @ post))) \<sigma>"
    by (rule same)
  fix r s'
  assume h: "New (SQLite drv) (JSONValue (JObject (pre @ (k, v) # post))) s = (r, s')
      \<and> status_code r = 201"
  with same [of "SQLite drv" s]
  have n: "New (SQLite drv) (JSONValue (JObject (pre @ post))) s = (r, s')"
    and c: "status_code r = 201" by simp_all
  from New_SQLite_201 [OF n c]
  show "\<exists>i d. new_rowid s = Some i \<and> data r = IdMap i
      \<and> Decode (JSONValue (JObject (pre @ post))) = Inr d
      \<and> s' = s\<lparr>students := students s
                    @ [\<lparr>ID = i, Name = Name d, Email = Email d, Age = Age d\<rparr>],
                sqlite_sequence := i\<rparr>"
    by blast
next
  fix body body' d x
  assume "Decode body = Inr d \<and> Decode body' = Inr (d\<lparr>ID := x\<rparr>)"
  then show "New st body' \<sigma> = New st body \<sigma>"
    by (simp add: New_decoded validate_Struct_def)
next
  assume "\<not> (v = JNull \<or> (\<exists>lit n. v = JNumber lit \<and> ParseInt lit = Some n))"
  then have "v \<noteq> JNull" and "\<not> (\<exists>lit n. v = JNumber lit \<and> ParseInt lit = Some n)"
    by simp_all
  from unmarshal_other_id_fails [OF assms this, of pre post]
  obtain err where e: "Decode (JSONValue (JObject (pre @ (k, v) # post))) = Inl err" ..
  show "status_code (fst (New st (JSONValue (JObject (pre @ (k, v) # post))) \<sigma>)) = 400"
    by (rule New_undecoded(1) [OF e])
  show "snd (New st (JSONValue (JObject (pre @ (k, v) # post))) \<sigma>) = \<sigma>"
    by (rule New_undecoded(2) [OF e])
  show "\<And>st' \<tau>. New st' (JSONValue (JObject (pre @ (k, v) # post))) \<tau>
      = (fst (New st (JSONValue (JObject (pre @ (k, v) # post))) \<sigma>), \<tau>)"
    by (rule New_undecoded(3) [OF e])
next
  fix lit n assume "ParseInt lit = Some n"
  from ParseInt_range [OF this] show "- (2 ^ 63) \<le> n" and "n < 2 ^ 63" by simp_all
next
  fix n
  show "ParseInt (itoa n) = (if - (2 ^ 63) \<le> n \<and> n < 2 ^ 63 then Some n else None)"
    by (rule ParseInt_itoa)
qed

text \<open>
  Claim C10, amended, at four bodies: \<^verbatim>\<open>"ID":77\<close> and \<^verbatim>\<open>"id":9223372036854775807\<close> are
  ignored and the id is 1; \<^verbatim>\<open>"id":9223372036854775808\<close> and \<^verbatim>\<open>"id":1.5\<close> are answered 400.
\<close>

theorem client_id_is_ignored_or_rejected_witness:
  "map lower ''ID'' = ''id'' \<and> ParseInt ''77'' = Some 77
   \<and> New (SQLite healthy)
        (JSONValue (JObject [(''ID'', JNumber ''77''), (''name'', JString ''Rakesh''),
                             (''email'', JString ''rakesh@test.com''), (''age'', JNumber ''35'')]))
        SQLite_New
     = (WriteJSON 201 (IdMap 1),
        \<lparr>students = [\<lparr>ID = 1, Name = ''Rakesh'', Email = ''rakesh@test.com'', Age = 35\<rparr>],
         sqlite_sequence = 1\<rparr>)
   \<and> ParseInt ''9223372036854775807'' = Some 9223372036854775807
   \<and> New (SQLite healthy)
        (JSONValue (JObject [(''id'', JNumber ''9223372036854775807''), (''name'', JString ''Rakesh''),
                             (''email'', JString ''rakesh@test.com''), (''age'', JNumber ''35'')]))
        SQLite_New
     = (WriteJSON 201 (IdMap 1),
        \<lparr>students = [\<lparr>ID = 1, Name = ''Rakesh'', Email = ''rakesh@test.com'', Age = 35\<rparr>],
         sqlite_sequence = 1\<rparr>)
   \<and> ParseInt ''9223372036854775808'' = None
   \<and> status_code (fst (New (SQLite healthy)
        (JSONValue (JObject [(''id'', JNumber ''9223372036854775808''), (''name'', JString ''Rakesh''),
                             (''email'', JString ''rakesh@test.com''), (''age'', JNumber ''35'')]))
        SQLite_New)) = 400
   \<and> snd (New (SQLite healthy)
        (JSONValue (JObject [(''id'', JNumber ''9223372036854775808''), (''name'', JString ''Rakesh''),
                             (''email'', JString ''rakesh@test.com''), (''age'', JNumber ''35'')]))
        SQLite_New) = SQLite_New
   \<and> ParseInt ''1.5'' = None
   \<and> status_code (fst (New (SQLite healthy)
        (JSONValue (JObject [(''id'', JNumber ''1.5''), (''name'', JString ''Rakesh''),
                             (''email'', JString ''rakesh@test.com''), (''age'', JNumber ''35'')]))
        SQLite_New)) = 400"
proof -
  let ?rest = "[(''name'', JString ''Rakesh''), (''email'', JString ''rakesh@test.com''),
                (''age'', JNumber ''35'')]"
  note either = client_id_is_ignored_or_rejected
  have K: "map lower ''ID'' = ''id''"
    by (simp add: lower_def char_of_def)
  have k: "map lower ''id'' = ''id''"
    by (simp add: lower_def)
  have p77: "ParseInt ''77'' = Some 77"
    by (simp add: ParseInt_def digit_val_def)
  have pmax: "ParseInt ''9223372036854775807'' = Some 9223372036854775807"
    by (simp add: ParseInt_def digit_val_def)
  have pover: "ParseInt ''9223372036854775808'' = None"
    by (simp add: ParseInt_def digit_val_def)
  have pfrac: "ParseInt ''1.5'' = None"
    by (simp add: ParseInt_def digit_val_def)
  have plain: "New (SQLite healthy) (JSONValue (JObject ?rest)) SQLite_New
     = (WriteJSON 201 (IdMap 1),
        \<lparr>students = [\<lparr>ID = 1, Name = ''Rakesh'', Email = ''rakesh@test.com'', Age = 35\<rparr>],
         sqlite_sequence = 1\<rparr>)"
    by (simp add: New_def Decode_def set_member_def lower_def zero_Student_def ParseInt_def
        digit_val_def validate_Struct_def SQLite_def SQLite_CreateStudent_def exec_insert_def
        new_rowid_def healthy_def MAX_ROWID_def SQLite_New_def StatusCreated_def)
  have a: "New (SQLite healthy) (JSONValue (JObject ((''ID'', JNumber ''77'') # ?rest))) SQLite_New
      = New (SQLite healthy) (JSONValue (JObject ?rest)) SQLite_New"
    using either [OF K, where v = "JNumber ''77''" and pre = "[]" and post = ?rest
        and st = "SQLite healthy" and \<sigma> = SQLite_New, THEN conjunct1] p77
    by simp
  have b: "New (SQLite healthy)
        (JSONValue (JObject ((''id'', JNumber ''9223372036854775807'') # ?rest))) SQLite_New
      = New (SQLite healthy) (JSONValue (JObject ?rest)) SQLite_New"
    using either [OF k, where v = "JNumber ''9223372036854775807''" and pre = "[]"
        and post = ?rest and st = "SQLite healthy" and \<sigma> = SQLite_New, THEN conjunct1] pmax
    by simp
  have nov: "\<not> (JNumber ''9223372036854775808'' = JNull
      \<or> (\<exists>lit n. JNumber ''9223372036854775808'' = JNumber lit \<and> ParseInt lit = Some n))"
    using pover by simp
  note over = either [OF k, where v = "JNumber ''9223372036854775808''" and pre = "[]"
      and post = ?rest and st = "SQLite healthy" and \<sigma> = SQLite_New,
      THEN conjunct2, THEN conjunct2, THEN conjunct1, rule_format, OF nov]
  have nof: "\<not> (JNumber ''1.5'' = JNull
      \<or> (\<exists>lit n. JNumber ''1.5'' = JNumber lit \<and> ParseInt lit = Some n))"
    using pfrac by simp
  note frac = either [OF k, where v = "JNumber ''1.5''" and pre = "[]"
      and post = ?rest and st = "SQLite healthy" and \<sigma> = SQLite_New,
      THEN conjunct2, THEN conjunct2, THEN conjunct1, rule_format, OF nof]
  from K p77 a b plain pmax pover over [THEN conjunct1] over [THEN conjunct2, THEN conjunct1]
    pfrac frac [THEN conjunct1]
  show ?thesis by simp
qed

text \<open>
  Claim C10 as stated fails for an id that is not an integer: with \<^verbatim>\<open>"id":"abc"\<close> the body
  does not decode into the struct, \<^verbatim>\<open>New\<close> answers 400 and stores nothing, where the same
  body without the member is answered 201.
\<close>

theorem client_string_id_is_rejected:
  "status_code (fst (New (SQLite healthy)
        (JSONValue (JObject [(''id'', JString ''abc''), (''name'', JString ''Rakesh''),
                             (''email'', JString ''rakesh@test.com''), (''age'', JNumber ''35'')]))
        SQLite_New)) = 400
   \<and> snd (New (SQLite healthy)
        (JSONValue (JObject [(''id'', JString ''abc''), (''name'', JString ''Rakesh''),
                             (''email'', JString ''rakesh@test.com''), (''age'', JNumber ''35'')]))
        SQLite_New) = SQLite_New
   \<and> New (SQLite healthy)
        (JSONValue (JObject [(''name'', JString ''Rakesh''),
                             (''email'', JString ''rakesh@test.com''), (''age'', JNumber ''35'')]))
        SQLite_New
     = (WriteJSON 201 (IdMap 1),
        \<lparr>students = [\<lparr>ID = 1, Name = ''Rakesh'', Email = ''rakesh@test.com'', Age = 35\<rparr>],
         sqlite_sequence = 1\<rparr>)"
  by (simp add: New_def Decode_def set_member_def lower_def zero_Student_def ParseInt_def
      digit_val_def validate_Struct_def SQLite_def SQLite_CreateStudent_def exec_insert_def
      new_rowid_def healthy_def MAX_ROWID_def SQLite_New_def StatusCreated_def
      StatusBadRequest_def saveError_def type_error_def)

end
